theory Spec2Isabelle
  imports Complex_Main "HOL-Library.Char_ord" "HOL-Library.List_Lexorder"
begin

section \<open>Category classifier (extract\_category in both capture scripts)\<close>

text \<open>
  Both capture scripts classify a service name with
  \<^verbatim>\<open>for category, pattern in categories.items():
      if re.search(pattern, service_name, re.IGNORECASE): return category
  return "Other"\<close>
  over a dict literal, which Python iterates in insertion order.  The patterns use only
  literal characters, bracket classes and top-level alternation, so a pattern is a list of
  alternatives, each a list of items.  Service names are byte strings; \<^verbatim>\<open>re.IGNORECASE\<close>
  is modelled as ASCII case folding (non-ASCII bytes are compared as they are).
\<close>

datatype re_item = Chr char | Cls string

type_synonym re_pattern = "re_item list list"

definition ascii_lower :: "char \<Rightarrow> char" where
  "ascii_lower c =
     (let n = (of_char c :: nat) in if 65 \<le> n \<and> n \<le> 90 then char_of (n + 32) else c)"

fun item_matches :: "re_item \<Rightarrow> char \<Rightarrow> bool" where
  "item_matches (Chr p) c = (ascii_lower c = ascii_lower p)"
| "item_matches (Cls ps) c = (ascii_lower c \<in> set (map ascii_lower ps))"

text \<open>A sequence of items matches at the start of the string.\<close>

fun match_here :: "re_item list \<Rightarrow> string \<Rightarrow> bool" where
  "match_here [] s = True"
| "match_here (a # as) [] = False"
| "match_here (a # as) (c # cs) = (item_matches a c \<and> match_here as cs)"

text \<open>\<^verbatim>\<open>re.search\<close> tries every start position; only the truth value is used.\<close>

fun search_seq :: "re_item list \<Rightarrow> string \<Rightarrow> bool" where
  "search_seq as [] = match_here as []"
| "search_seq as (c # cs) = (match_here as (c # cs) \<or> search_seq as cs)"

definition re_search :: "re_pattern \<Rightarrow> string \<Rightarrow> bool" where
  "re_search alts s = list_ex (\<lambda>alt. search_seq alt s) alts"

definition lit :: "string \<Rightarrow> re_item list" where
  "lit s = map Chr s"

text \<open>The loop over the ordered rule table, with the fall-through \<^verbatim>\<open>return "Other"\<close>.\<close>

fun first_match :: "(string \<times> re_pattern) list \<Rightarrow> string \<Rightarrow> string" where
  "first_match [] s = ''Other''"
| "first_match ((category, pattern) # rules) s =
     (if re_search pattern s then category else first_match rules s)"

definition oxygen_pattern :: re_pattern where
  "oxygen_pattern =
     [lit ''Ox'' @ [Cls ''iy''] @ lit ''gen'' @ [Cls ''ae''] @ lit ''r'' @ [Cls ''ae''],
      lit ''Oxygen'']"

definition categories_daily :: "(string \<times> re_pattern) list" where
  "categories_daily =
     [(''Pensat'', [lit ''Pensat'', lit ''ProBrows'']),
      (''Epilat'', [lit ''Epilat'']),
      (''Oxygenera'', oxygen_pattern),
      (''Laminare'', [lit ''Laminare'']),
      (''Microneedling'', [lit ''Microneedling'', lit ''DermaPen'']),
      (''ProBrows'', [lit ''ProBrows'']),
      (''Pure Solution'', [lit ''Pure Solution'']),
      (''Peeling'', [lit ''Peeling'']),
      (''Tratament'', [lit ''Tratament''])]"

definition categories_historical :: "(string \<times> re_pattern) list" where
  "categories_historical =
     [(''Pensat'', [lit ''Pensat'']),
      (''ProBrows'', [lit ''ProBrows'']),
      (''Epilat'', [lit ''Epilat'']),
      (''Oxygenera'', oxygen_pattern),
      (''Laminare'', [lit ''Laminare'']),
      (''Microneedling'', [lit ''Microneedling'']),
      (''DermaPen'', [lit ''DermaPen'']),
      (''Peeling'', [lit ''Peeling'']),
      (''Tratament'', [lit ''Tratament'']),
      (''Pure Solution'', [lit ''Pure Solution''])]"

definition extract_category_daily :: "string \<Rightarrow> string" where
  "extract_category_daily service_name = first_match categories_daily service_name"

definition extract_category_historical :: "string \<Rightarrow> string" where
  "extract_category_historical service_name = first_match categories_historical service_name"


text \<open>
  The enumerated categories of the data model, as the strings the code returns
  (the spec's \<open>PureSolution\<close> is the string \<^verbatim>\<open>"Pure Solution"\<close>).
\<close>

definition category_names :: "string list" where
  "category_names =
     [''Pensat'', ''Epilat'', ''Oxygenera'', ''Laminare'', ''Microneedling'', ''ProBrows'',
      ''Pure Solution'', ''Peeling'', ''Tratament'', ''Other'']"

text \<open>
  \<^verbatim>\<open>get_mega_category\<close> of the historical script: the first mega-category whose member list
  contains the category, else \<open>Altele\<close>.  The first name is written in UTF-8 bytes.
\<close>

definition mega_categories :: "(string \<times> string list) list" where
  "mega_categories =
     [(''Spr'' @ [char_of (195::nat), char_of (162::nat)] @ ''ncene'',
         [''Pensat'', ''ProBrows'', ''Laminare'']),
      (''Epilare'', [''Epilat'']),
      (''Tratamente'',
         [''Oxygenera'', ''Microneedling'', ''DermaPen'', ''Peeling'', ''Tratament'',
          ''Pure Solution''])]"

fun first_containing :: "(string \<times> string list) list \<Rightarrow> string \<Rightarrow> string" where
  "first_containing [] individual_category = ''Altele''"
| "first_containing ((mega_cat, individual_cats) # rest) individual_category =
     (if individual_category \<in> set individual_cats then mega_cat
      else first_containing rest individual_category)"

definition get_mega_category :: "string \<Rightarrow> string" where
  "get_mega_category individual_category = first_containing mega_categories individual_category"

section \<open>Raw entries: JSON values and the Python operations applied to them\<close>

text \<open>
  A raw entry is whatever \<^verbatim>\<open>json.loads\<close> returned: a dict is an association list read
  with \<open>map_of\<close>, a float is idealised as an exact real number.  Every exception the
  parser can raise on such a value is an error value.
\<close>

datatype json =
    JNull
  | JBool bool
  | JInt int
  | JFloat real
  | JStr string
  | JArr "json list"
  | JObj "(string \<times> json) list"

datatype py_error = AttributeError | TypeError | KeyError | ValueError | UnboundLocalError

definition bind_err :: "py_error + 'a \<Rightarrow> ('a \<Rightarrow> py_error + 'b) \<Rightarrow> py_error + 'b" where
  "bind_err r f = (case r of Inl e \<Rightarrow> Inl e | Inr x \<Rightarrow> f x)"

text \<open>\<^verbatim>\<open>d.get(k, default)\<close>: only a dict has the method.\<close>

definition py_get :: "json \<Rightarrow> string \<Rightarrow> json \<Rightarrow> py_error + json" where
  "py_get d k dflt =
     (case d of
        JObj kvs \<Rightarrow> Inr (case map_of kvs k of None \<Rightarrow> dflt | Some v \<Rightarrow> v)
      | _ \<Rightarrow> Inl AttributeError)"

text \<open>The numeric reading of a value: Python's \<^verbatim>\<open>bool\<close> is a subtype of \<^verbatim>\<open>int\<close>.\<close>

definition py_num :: "json \<Rightarrow> real option" where
  "py_num v =
     (case v of
        JBool b \<Rightarrow> Some (if b then 1 else 0)
      | JInt n \<Rightarrow> Some (of_int n)
      | JFloat r \<Rightarrow> Some r
      | _ \<Rightarrow> None)"

text \<open>\<^verbatim>\<open>v == n\<close> for a number \<open>n\<close>: false, never an error, on a non-number.\<close>

definition py_eq_num :: "json \<Rightarrow> real \<Rightarrow> bool" where
  "py_eq_num v n = (py_num v = Some n)"

text \<open>\<^verbatim>\<open>v > 0\<close>: a TypeError on a value that is not a number.\<close>

definition py_gt0 :: "json \<Rightarrow> py_error + bool" where
  "py_gt0 v = (case py_num v of None \<Rightarrow> Inl TypeError | Some r \<Rightarrow> Inr (0 < r))"

text \<open>\<^verbatim>\<open>10**scale\<close>, evaluated only after \<^verbatim>\<open>scale > 0\<close> held.\<close>

definition py_pow10 :: "json \<Rightarrow> real" where
  "py_pow10 scale =
     (case scale of
        JInt n \<Rightarrow> 10 ^ nat n
      | JBool b \<Rightarrow> 10 ^ (if b then 1 else 0)
      | JFloat r \<Rightarrow> 10 powr r
      | _ \<Rightarrow> 1)"

text \<open>\<^verbatim>\<open>value / d\<close> for a number \<open>d\<close>: true division, always a float.\<close>

definition py_truediv :: "json \<Rightarrow> real \<Rightarrow> py_error + json" where
  "py_truediv v d = (case py_num v of None \<Rightarrow> Inl TypeError | Some x \<Rightarrow> Inr (JFloat (x / d)))"

text \<open>Truthiness, as \<^verbatim>\<open>if not date_str\<close> tests it.\<close>

definition py_truthy :: "json \<Rightarrow> bool" where
  "py_truthy v =
     (case v of
        JNull \<Rightarrow> False
      | JBool b \<Rightarrow> b
      | JInt n \<Rightarrow> n \<noteq> 0
      | JFloat r \<Rightarrow> r \<noteq> 0
      | JStr s \<Rightarrow> s \<noteq> []
      | JArr xs \<Rightarrow> xs \<noteq> []
      | JObj kvs \<Rightarrow> kvs \<noteq> [])"

text \<open>
  \<^verbatim>\<open>for service in booked_services\<close>: a list yields its elements, a dict its keys, a
  string its characters; anything else is not iterable.
\<close>

definition py_iter :: "json \<Rightarrow> py_error + json list" where
  "py_iter v =
     (case v of
        JArr xs \<Rightarrow> Inr xs
      | JObj kvs \<Rightarrow> Inr (map (\<lambda>kv. JStr (fst kv)) kvs)
      | JStr s \<Rightarrow> Inr (map (\<lambda>c. JStr [c]) s)
      | _ \<Rightarrow> Inl TypeError)"

text \<open>
  A value inside an f-string: a string is inserted as it is; the text Python prints for any
  other value is the parameter \<open>fmt\<close>.
\<close>

definition py_format :: "(json \<Rightarrow> string) \<Rightarrow> json \<Rightarrow> string" where
  "py_format fmt v = (case v of JStr s \<Rightarrow> s | _ \<Rightarrow> fmt v)"

definition is_space :: "char \<Rightarrow> bool" where
  "is_space c = (let n = (of_char c :: nat) in (9 \<le> n \<and> n \<le> 13) \<or> (28 \<le> n \<and> n \<le> 32))"

definition py_strip :: "string \<Rightarrow> string" where
  "py_strip s = rev (dropWhile is_space (rev (dropWhile is_space s)))"

section \<open>Appointment parser (parse\_appointment in both capture scripts)\<close>

text \<open>
  The appointment dict.  The date is whatever truthy value \<^verbatim>\<open>dateStr\<close> held (type
  parameter \<open>'d\<close>: \<open>json\<close> in the parser, \<open>string\<close> where dates are sorted and joined into
  keys); \<open>mega_category\<close> is a key of the historical script's dict only.
\<close>

record 'd appointment =
  date :: 'd
  service :: string
  category :: string
  mega_category :: "string option"
  price :: json
  client :: string

text \<open>
  The price of one booked service, lines \<^verbatim>\<open>price = 0 ... price = price_data.get("fixed", 0)\<close>
  of the loop body; \<open>booked\<close> holds the items of the service dict.
\<close>

definition service_price :: "(string \<times> json) list \<Rightarrow> py_error + json" where
  "service_price booked =
     (case map_of booked ''customPrice'' of
        Some custom_price \<Rightarrow>
          bind_err (py_get custom_price ''type'' JNull) (\<lambda>t.
            if t = JStr ''Fixed'' then
              bind_err (py_get custom_price ''fixed'' (JObj [])) (\<lambda>fixed.
              bind_err (py_get fixed ''amount'' (JObj [])) (\<lambda>amount_data.
              bind_err (py_get amount_data ''value'' (JInt 0)) (\<lambda>value.
              bind_err (py_get amount_data ''scale'' (JInt 0)) (\<lambda>scale.
              bind_err (py_gt0 scale) (\<lambda>positive.
                if positive then py_truediv value (py_pow10 scale) else Inr value)))))
            else Inr (JInt 0))
      | None \<Rightarrow>
          (case map_of booked ''price'' of
             Some price_data \<Rightarrow>
               bind_err (py_get price_data ''type'' JNull) (\<lambda>t.
                 if py_eq_num t 1 then py_get price_data ''fixed'' (JInt 0) else Inr (JInt 0))
           | None \<Rightarrow> Inr (JInt 0)))"

text \<open>The client name, computed inside the loop body from the payload dict.\<close>

definition client_name :: "(json \<Rightarrow> string) \<Rightarrow> (string \<times> json) list \<Rightarrow> py_error + string" where
  "client_name fmt payload =
     (case map_of payload ''client'' of
        None \<Rightarrow> Inr []
      | Some client_record \<Rightarrow>
          bind_err (py_get client_record ''firstname'' (JStr [])) (\<lambda>firstname.
          bind_err (py_get client_record ''lastname'' (JStr [])) (\<lambda>lastname.
            Inr (py_strip (py_format fmt firstname @ '' '' @ py_format fmt lastname)))))"

text \<open>
  One pass of the loop body.  \<^verbatim>\<open>service.get\<close> needs a dict and \<^verbatim>\<open>re.search\<close> a string;
  \<open>mega\<close> is \<open>None\<close> for the daily script and \<^verbatim>\<open>get_mega_category\<close> for the historical one.
\<close>

definition parse_service ::
  "(json \<Rightarrow> string) \<Rightarrow> (string \<Rightarrow> string) \<Rightarrow> (string \<Rightarrow> string) option \<Rightarrow> json \<Rightarrow>
   (string \<times> json) list \<Rightarrow> json \<Rightarrow> py_error + json appointment" where
  "parse_service fmt classify mega date_str payload booked =
     (case booked of
        JObj kvs \<Rightarrow>
          bind_err (service_price kvs) (\<lambda>price.
            (case (case map_of kvs ''name'' of None \<Rightarrow> JStr [] | Some v \<Rightarrow> v) of
               JStr service_name \<Rightarrow>
                 bind_err (client_name fmt payload) (\<lambda>client_name.
                   Inr \<lparr>date = date_str, service = service_name,
                        category = classify service_name,
                        mega_category = map_option (\<lambda>m. m (classify service_name)) mega,
                        price = price, client = client_name\<rparr>)
             | _ \<Rightarrow> Inl TypeError))
      | _ \<Rightarrow> Inl AttributeError)"

fun parse_services ::
  "(json \<Rightarrow> string) \<Rightarrow> (string \<Rightarrow> string) \<Rightarrow> (string \<Rightarrow> string) option \<Rightarrow> json \<Rightarrow>
   (string \<times> json) list \<Rightarrow> json list \<Rightarrow> py_error + json appointment list" where
  "parse_services fmt classify mega date_str payload [] = Inr []"
| "parse_services fmt classify mega date_str payload (booked # rest) =
     (case parse_service fmt classify mega date_str payload booked of
        Inl e \<Rightarrow> Inl e
      | Inr appt \<Rightarrow>
          (case parse_services fmt classify mega date_str payload rest of
             Inl e \<Rightarrow> Inl e
           | Inr appointments \<Rightarrow> Inr (appt # appointments)))"

text \<open>The body of the \<^verbatim>\<open>try\<close> block: \<open>Inr None\<close> is an explicit \<^verbatim>\<open>return None\<close>.\<close>

definition parse_entry ::
  "(json \<Rightarrow> string) \<Rightarrow> (string \<Rightarrow> string) \<Rightarrow> (string \<Rightarrow> string) option \<Rightarrow> json \<Rightarrow>
   py_error + json appointment list option" where
  "parse_entry fmt classify mega entry =
     bind_err (py_get entry ''type'' JNull) (\<lambda>t.
       if \<not> py_eq_num t 0 then Inr None
       else
         bind_err (py_get entry ''payload'' (JObj [])) (\<lambda>payload.
         bind_err (py_get entry ''localStart'' (JObj [])) (\<lambda>start.
         bind_err (py_get start ''dateStr'' JNull) (\<lambda>date_str.
           if \<not> py_truthy date_str then Inr None
           else
             (case payload of
                JObj payload_items \<Rightarrow>
                  bind_err (py_iter
                      (case map_of payload_items ''bookedServices'' of
                         None \<Rightarrow> JArr [] | Some v \<Rightarrow> v)) (\<lambda>booked_services.
                  bind_err (parse_services fmt classify mega date_str payload_items
                      booked_services) (\<lambda>appointments.
                    Inr (Some appointments)))
              | _ \<Rightarrow> Inl AttributeError)))))"

text \<open>\<^verbatim>\<open>except Exception\<close>: any error is logged and becomes \<^verbatim>\<open>None\<close>.\<close>

definition parse_appointment ::
  "(json \<Rightarrow> string) \<Rightarrow> (string \<Rightarrow> string) \<Rightarrow> (string \<Rightarrow> string) option \<Rightarrow> json \<Rightarrow>
   json appointment list option" where
  "parse_appointment fmt classify mega entry =
     (case parse_entry fmt classify mega entry of Inl e \<Rightarrow> None | Inr r \<Rightarrow> r)"

definition parse_appointment_daily :: "(json \<Rightarrow> string) \<Rightarrow> json \<Rightarrow> json appointment list option" where
  "parse_appointment_daily fmt entry = parse_appointment fmt extract_category_daily None entry"

definition parse_appointment_historical ::
  "(json \<Rightarrow> string) \<Rightarrow> json \<Rightarrow> json appointment list option" where
  "parse_appointment_historical fmt entry =
     parse_appointment fmt extract_category_historical (Some get_mega_category) entry"

section \<open>Deduplication and incremental merge (daily script)\<close>

text \<open>
  The identity key \<^verbatim>\<open>f"{appt['date']}|{appt['client']}|{appt['service']}"\<close> of a captured
  appointment whose date is a string.
\<close>

definition appointment_key :: "string appointment \<Rightarrow> string" where
  "appointment_key appt = date appt @ ''|'' @ client appt @ ''|'' @ service appt"

text \<open>The filter loop of \<^verbatim>\<open>run\<close>: \<open>existing_keys\<close> is not updated while it runs.\<close>

fun filter_new ::
  "string set \<Rightarrow> string appointment list \<Rightarrow> string appointment list \<Rightarrow> string appointment list" where
  "filter_new existing_keys [] new_appointments = new_appointments"
| "filter_new existing_keys (appt # captured) new_appointments =
     (if appointment_key appt \<notin> existing_keys
      then filter_new existing_keys captured (new_appointments @ [appt])
      else filter_new existing_keys captured new_appointments)"

definition merge :: "string set \<Rightarrow> string appointment list \<Rightarrow> string appointment list" where
  "merge existing_keys captured = filter_new existing_keys captured []"

subsection \<open>The Raw Data sheet\<close>

text \<open>
  What \<^verbatim>\<open>iter_rows(min_row=2, values_only=True)\<close> yields for one cell: nothing, a text, a
  number, a truth value, or a date or time (carried as the text \<^verbatim>\<open>str\<close> prints for it).
  The sheet \<^verbatim>\<open>Raw Data\<close> is taken to exist, as it does in every file the scripts write.
  The header row either script writes has at least five columns,
  so every row read has the cells \<^verbatim>\<open>row[0]\<close> to \<^verbatim>\<open>row[4]\<close>; the daily script reads no
  others.  In a sheet written by the historical script \<^verbatim>\<open>row[4]\<close> is the mega-category
  and the price is a sixth cell.
\<close>

datatype cell = CNone | CStr string | CNum real | CBool bool | CDate string

record sheet_row =
  c_date :: cell
  c_client :: cell
  c_service :: cell
  c_category :: cell
  c_price :: cell

definition cell_truthy :: "cell \<Rightarrow> bool" where
  "cell_truthy c =
     (case c of
        CNone \<Rightarrow> False
      | CStr s \<Rightarrow> s \<noteq> []
      | CNum r \<Rightarrow> r \<noteq> 0
      | CBool b \<Rightarrow> b
      | CDate printed \<Rightarrow> True)"

text \<open>
  A cell inside an f-string or under \<^verbatim>\<open>str\<close>: an empty cell prints as \<^verbatim>\<open>None\<close>; the text
  Python prints for a number is the parameter \<open>num_str\<close>.
\<close>

definition cell_format :: "(real \<Rightarrow> string) \<Rightarrow> cell \<Rightarrow> string" where
  "cell_format num_str c =
     (case c of
        CNone \<Rightarrow> ''None''
      | CStr s \<Rightarrow> s
      | CNum r \<Rightarrow> num_str r
      | CBool b \<Rightarrow> (if b then ''True'' else ''False'')
      | CDate printed \<Rightarrow> printed)"

text \<open>The key \<^verbatim>\<open>f"{row[0]}|{row[1]}|{row[2]}"\<close> of a row read from the sheet.\<close>

definition row_key :: "(real \<Rightarrow> string) \<Rightarrow> sheet_row \<Rightarrow> string" where
  "row_key num_str row =
     cell_format num_str (c_date row) @ ''|'' @ cell_format num_str (c_client row) @ ''|''
       @ cell_format num_str (c_service row)"

text \<open>\<^verbatim>\<open>load_existing_appointments\<close>: the keys of the rows whose first cell is truthy.\<close>

fun load_rows :: "(real \<Rightarrow> string) \<Rightarrow> sheet_row list \<Rightarrow> string set \<Rightarrow> string set" where
  "load_rows num_str [] existing = existing"
| "load_rows num_str (row # rows) existing =
     (if cell_truthy (c_date row)
      then load_rows num_str rows (insert (row_key num_str row) existing)
      else load_rows num_str rows existing)"

definition load_existing_appointments :: "(real \<Rightarrow> string) \<Rightarrow> sheet_row list \<Rightarrow> string set" where
  "load_existing_appointments num_str raw_data = load_rows num_str raw_data {}"

text \<open>
  \<^verbatim>\<open>ws_raw.append([...])\<close>, as the values are found in the sheet afterwards: a non-empty
  string is a text cell, an empty string an empty cell (read back as \<^verbatim>\<open>None\<close>), a number
  or truth value itself; a list or dict cannot be converted and \<^verbatim>\<open>append\<close> raises.
  Before the file is saved an empty string is still in the cell; it is as falsy as
  \<^verbatim>\<open>None\<close>, and \<^verbatim>\<open>rebuild_summary_sheets\<close> below tells the two apart nowhere it can raise.
\<close>

definition text_cell :: "string \<Rightarrow> cell" where
  "text_cell s = (if s = [] then CNone else CStr s)"

definition value_cell :: "json \<Rightarrow> py_error + cell" where
  "value_cell v =
     (case v of
        JNull \<Rightarrow> Inr CNone
      | JBool b \<Rightarrow> Inr (CBool b)
      | JInt n \<Rightarrow> Inr (CNum (of_int n))
      | JFloat r \<Rightarrow> Inr (CNum r)
      | JStr s \<Rightarrow> Inr (text_cell s)
      | _ \<Rightarrow> Inl ValueError)"

definition append_row :: "string appointment \<Rightarrow> py_error + sheet_row" where
  "append_row appt =
     (case value_cell (price appt) of
        Inl e \<Rightarrow> Inl e
      | Inr p \<Rightarrow>
          Inr \<lparr>c_date = text_cell (date appt), c_client = text_cell (client appt),
               c_service = text_cell (service appt), c_category = text_cell (category appt),
               c_price = p\<rparr>)"

fun append_rows :: "string appointment list \<Rightarrow> py_error + sheet_row list" where
  "append_rows [] = Inr []"
| "append_rows (appt # appts) =
     (case append_row appt of
        Inl e \<Rightarrow> Inl e
      | Inr row \<Rightarrow>
          (case append_rows appts of Inl e \<Rightarrow> Inl e | Inr rows \<Rightarrow> Inr (row # rows)))"

text \<open>
  \<^verbatim>\<open>rebuild_summary_sheets\<close>, as far as it can raise: the loop that reads every dated row
  (\<^verbatim>\<open>float(row[4]) if row[4] else 0\<close>) and the loop that parses every date with
  \<^verbatim>\<open>datetime.strptime(appt["date"], "%Y-%m-%d")\<close>.  What it computes goes to the two summary
  sheets, not to Raw Data.  Python's \<^verbatim>\<open>float\<close> on a string is the parameter \<open>str_float\<close>
  (\<open>None\<close> for a ValueError), and whether \<^verbatim>\<open>strptime\<close> accepts a string is \<open>strptime_ok\<close>.
\<close>

record sheet_appt =
  sa_date :: string
  sa_client :: cell
  sa_service :: cell
  sa_category :: cell
  sa_price :: real

definition cell_price :: "(string \<Rightarrow> real option) \<Rightarrow> cell \<Rightarrow> py_error + real" where
  "cell_price str_float c =
     (if cell_truthy c then
        (case c of
           CStr s \<Rightarrow> (case str_float s of None \<Rightarrow> Inl ValueError | Some r \<Rightarrow> Inr r)
         | CNum r \<Rightarrow> Inr r
         | CBool b \<Rightarrow> Inr 1
         | CDate printed \<Rightarrow> Inl TypeError
         | CNone \<Rightarrow> Inr 0)
      else Inr 0)"

fun read_all_appts ::
  "(real \<Rightarrow> string) \<Rightarrow> (string \<Rightarrow> real option) \<Rightarrow> sheet_row list \<Rightarrow> py_error + sheet_appt list" where
  "read_all_appts num_str str_float [] = Inr []"
| "read_all_appts num_str str_float (row # rows) =
     (if cell_truthy (c_date row) then
        (case cell_price str_float (c_price row) of
           Inl e \<Rightarrow> Inl e
         | Inr p \<Rightarrow>
             (case read_all_appts num_str str_float rows of
                Inl e \<Rightarrow> Inl e
              | Inr all_appts \<Rightarrow>
                  Inr (\<lparr>sa_date = cell_format num_str (c_date row), sa_client = c_client row,
                        sa_service = c_service row, sa_category = c_category row,
                        sa_price = p\<rparr> # all_appts)))
      else read_all_appts num_str str_float rows)"

definition rebuild_summary_sheets ::
  "(real \<Rightarrow> string) \<Rightarrow> (string \<Rightarrow> real option) \<Rightarrow> (string \<Rightarrow> bool) \<Rightarrow> sheet_row list \<Rightarrow>
   py_error + unit" where
  "rebuild_summary_sheets num_str str_float strptime_ok raw_data =
     (case read_all_appts num_str str_float raw_data of
        Inl e \<Rightarrow> Inl e
      | Inr all_appts \<Rightarrow>
          (if list_all (\<lambda>appt. strptime_ok (sa_date appt)) all_appts then Inr ()
           else Inl ValueError))"

text \<open>
  \<^verbatim>\<open>update_excel_file\<close>: nothing is done for an empty list; otherwise the new appointments
  are appended in the order of \<^verbatim>\<open>sorted(new_appointments, key=lambda x: x["date"])\<close> (a
  stable sort on the date string), the summaries are rebuilt, and only then the workbook is
  saved.  \<open>Inr\<close> carries the sheet as it is on disk afterwards; an exception leaves the file
  as it was.
\<close>

definition update_excel_file ::
  "(real \<Rightarrow> string) \<Rightarrow> (string \<Rightarrow> real option) \<Rightarrow> (string \<Rightarrow> bool) \<Rightarrow> sheet_row list \<Rightarrow>
   string appointment list \<Rightarrow> py_error + sheet_row list" where
  "update_excel_file num_str str_float strptime_ok raw_data new_appointments =
     (if new_appointments = [] then Inr raw_data
      else
        (case append_rows (sort_key date new_appointments) of
           Inl e \<Rightarrow> Inl e
         | Inr rows \<Rightarrow>
             (case rebuild_summary_sheets num_str str_float strptime_ok (raw_data @ rows) of
                Inl e \<Rightarrow> Inl e
              | Inr u \<Rightarrow> Inr (raw_data @ rows))))"

text \<open>
  One daily run on a persisted sheet and a batch of captured appointments, from loading the
  keys to updating the file, and the sheet that is on disk after it.
\<close>

definition daily_run ::
  "(real \<Rightarrow> string) \<Rightarrow> (string \<Rightarrow> real option) \<Rightarrow> (string \<Rightarrow> bool) \<Rightarrow> sheet_row list \<Rightarrow>
   string appointment list \<Rightarrow> py_error + sheet_row list" where
  "daily_run num_str str_float strptime_ok raw_data captured =
     update_excel_file num_str str_float strptime_ok raw_data
       (merge (load_existing_appointments num_str raw_data) captured)"

definition persisted_after :: "sheet_row list \<Rightarrow> py_error + sheet_row list \<Rightarrow> sheet_row list" where
  "persisted_after raw_data outcome = (case outcome of Inl e \<Rightarrow> raw_data | Inr saved \<Rightarrow> saved)"

text \<open>
  The stored appointments are the rows with a date; their keys are the ones
  \<^verbatim>\<open>load_existing_appointments\<close> computes.
\<close>

definition stored_keys :: "(real \<Rightarrow> string) \<Rightarrow> sheet_row list \<Rightarrow> string list" where
  "stored_keys num_str raw_data =
     map (row_key num_str) (filter (\<lambda>row. cell_truthy (c_date row)) raw_data)"

definition keys_unique :: "(real \<Rightarrow> string) \<Rightarrow> sheet_row list \<Rightarrow> bool" where
  "keys_unique num_str raw_data = distinct (stored_keys num_str raw_data)"

section \<open>Category totals and their share of revenue (both capture scripts)\<close>

text \<open>
  \<^verbatim>\<open>category_totals = defaultdict(lambda: {"count": 0, "revenue": 0})\<close>: a dict in insertion
  order, so an association list.  Revenues are idealised as exact real numbers.
\<close>

record stats =
  count :: nat
  revenue :: real

type_synonym totals = "(string \<times> stats) list"

text \<open>\<^verbatim>\<open>totals[k]["count"] += 1; totals[k]["revenue"] += p\<close>, creating the entry on first use.\<close>

fun add_to_totals :: "string \<Rightarrow> real \<Rightarrow> totals \<Rightarrow> totals" where
  "add_to_totals k p [] = [(k, \<lparr>count = 1, revenue = p\<rparr>)]"
| "add_to_totals k p ((k', st) # rest) =
     (if k' = k then (k', \<lparr>count = count st + 1, revenue = revenue st + p\<rparr>) # rest
      else (k', st) # add_to_totals k p rest)"

text \<open>
  The accumulation loop, for one of the dicts it fills: \<open>label\<close> reads the grouping field
  of the appointment (a missing dict key is a KeyError), and adding a price that is not a
  number is a TypeError.
\<close>

fun accumulate ::
  "('d appointment \<Rightarrow> string option) \<Rightarrow> 'd appointment list \<Rightarrow> totals \<Rightarrow> py_error + totals" where
  "accumulate label [] acc = Inr acc"
| "accumulate label (appt # appts) acc =
     (case label appt of
        None \<Rightarrow> Inl KeyError
      | Some k \<Rightarrow>
          (case py_num (price appt) of
             None \<Rightarrow> Inl TypeError
           | Some p \<Rightarrow> accumulate label appts (add_to_totals k p acc)))"

definition category_totals :: "'d appointment list \<Rightarrow> py_error + totals" where
  "category_totals all_appts = accumulate (\<lambda>appt. Some (category appt)) all_appts []"

definition mega_category_totals :: "'d appointment list \<Rightarrow> py_error + totals" where
  "mega_category_totals all_appts = accumulate mega_category all_appts []"

definition grand_total_revenue :: "totals \<Rightarrow> real" where
  "grand_total_revenue table = sum_list (map (\<lambda>kv. revenue (snd kv)) table)"

text \<open>
  Rounding to \<open>ndigits\<close> decimals as \<^verbatim>\<open>round(x, ndigits)\<close> and \<^verbatim>\<open>f"{x:.1f}"\<close> do it:
  to the nearest, ties to the even neighbour.
\<close>

definition round_half_even :: "real \<Rightarrow> int" where
  "round_half_even y =
     (let f = \<lfloor>y\<rfloor>; d = y - of_int f
      in if d < 1 / 2 then f else if 1 / 2 < d then f + 1 else if even f then f else f + 1)"

definition py_round :: "real \<Rightarrow> nat \<Rightarrow> real" where
  "py_round x ndigits = of_int (round_half_even (x * 10 ^ ndigits)) / 10 ^ ndigits"

text \<open>
  The rows of the totals sheet, in the order of
  \<^verbatim>\<open>sorted(totals.items(), key=lambda x: x[1]["revenue"], reverse=True)\<close> (stable, descending):
  label, exact percentage, and the number shown by \<^verbatim>\<open>f"{percent:.1f}%"\<close>.
\<close>

record percent_row =
  label :: string
  percent :: real
  displayed :: real

definition percent_of :: "real \<Rightarrow> stats \<Rightarrow> real" where
  "percent_of grand_total st = (if 0 < grand_total then revenue st / grand_total * 100 else 0)"

definition percent_rows :: "totals \<Rightarrow> percent_row list" where
  "percent_rows table =
     map (\<lambda>kv. \<lparr>label = fst kv,
                percent = percent_of (grand_total_revenue table) (snd kv),
                displayed = py_round (percent_of (grand_total_revenue table) (snd kv)) 1\<rparr>)
       (sort_key (\<lambda>kv. - revenue (snd kv)) table)"

section \<open>Forecast engine (create\_forecast\_sheet)\<close>

text \<open>
  One row of \<^verbatim>\<open>monthly_data\<close>.  A \<^verbatim>\<open>"%Y-%m"\<close> string is the pair (year, month); comparing two
  such strings is comparing the pairs lexicographically.
\<close>

type_synonym year_month = "int \<times> int"

record monthly =
  year_month :: year_month
  monthly_revenue :: real
  monthly_bookings :: nat

definition ym_ge :: "year_month \<Rightarrow> year_month \<Rightarrow> bool" where
  "ym_ge a b = (fst b < fst a \<or> (fst a = fst b \<and> snd b \<le> snd a))"

text \<open>
  Median and mean of a column.  On an empty column pandas answers \<^verbatim>\<open>nan\<close>; every call
  below is on at least three values, and the model answers 0 there.
\<close>

definition median :: "real list \<Rightarrow> real" where
  "median xs =
     (let s = sort xs; n = length s
      in if n = 0 then 0
         else if odd n then s ! (n div 2)
         else (s ! (n div 2 - 1) + s ! (n div 2)) / 2)"

definition mean :: "real list \<Rightarrow> real" where
  "mean xs = (if xs = [] then 0 else sum_list xs / real (length xs))"

definition tail :: "nat \<Rightarrow> 'a list \<Rightarrow> 'a list" where
  "tail n xs = drop (length xs - n) xs"

text \<open>Partial-month filtering.\<close>

definition filter_partial_months :: "monthly list \<Rightarrow> monthly list" where
  "filter_partial_months monthly_data =
     (if 3 \<le> length monthly_data then
        (let median_bookings = median (map (\<lambda>r. real (monthly_bookings r)) monthly_data);
             threshold_bookings = median_bookings * 0.5;
             full_months = filter (\<lambda>r. threshold_bookings \<le> real (monthly_bookings r)) monthly_data
         in if 3 \<le> length full_months then full_months else drop 1 monthly_data)
      else monthly_data)"

text \<open>
  The loop \<^verbatim>\<open>for i in range(1, len(recent_revenues))\<close>: one ratio per pair of neighbours
  whose first revenue is positive, kept when \<^verbatim>\<open>abs(growth) < 0.3\<close>.
\<close>

fun growth_rates :: "real list \<Rightarrow> real list" where
  "growth_rates (previous # current # rest) =
     (if 0 < previous \<and> \<bar>(current - previous) / previous\<bar> < 0.3
      then (current - previous) / previous # growth_rates (current # rest)
      else growth_rates (current # rest))"
| "growth_rates [x] = []"
| "growth_rates [] = []"

definition capped_growth_of :: "real list \<Rightarrow> real \<Rightarrow> real \<Rightarrow> real" where
  "capped_growth_of recent_growth_rates last_3_avg last_6_avg =
     (if 3 \<le> length recent_growth_rates
      then max (min (median recent_growth_rates) 0.03) (- 0.03)
      else if last_6_avg < last_3_avg then 0.01
      else if last_3_avg < last_6_avg * 0.95 then - 0.01
      else 0.00)"

text \<open>\<^verbatim>\<open>_get_next_month\<close>: the loop \<^verbatim>\<open>while month > 12: month -= 12; year += 1\<close>.\<close>

function normalise_month :: "int \<Rightarrow> int \<Rightarrow> year_month" where
  "normalise_month year month =
     (if 12 < month then normalise_month (year + 1) (month - 12) else (year, month))"
  by pat_completeness auto
termination
  by (relation "measure (\<lambda>(year, month). nat month)") auto

definition get_next_month :: "year_month \<Rightarrow> int \<Rightarrow> year_month" where
  "get_next_month yearmonth months_ahead =
     normalise_month (fst yearmonth) (snd yearmonth + months_ahead)"

definition start_month_offset :: "year_month \<Rightarrow> year_month \<Rightarrow> int" where
  "start_month_offset last_data_yearmonth current_yearmonth =
     (if ym_ge last_data_yearmonth current_yearmonth then 1
      else (fst current_yearmonth - fst last_data_yearmonth) * 12
           + (snd current_yearmonth - snd last_data_yearmonth) + 1)"

record forecast_row =
  forecast_month :: year_month
  conservative :: real
  moderate :: real
  optimistic :: real
  growth_rate :: real

text \<open>The body of the loop over the three forecast months.\<close>

definition forecast_for :: "real \<Rightarrow> real \<Rightarrow> year_month \<Rightarrow> int \<Rightarrow> int \<Rightarrow> forecast_row" where
  "forecast_for baseline capped_growth last_yearmonth offset i =
     (let months_ahead = i - offset + 1;
          conservative_multiplier =
            (if 0 \<le> capped_growth then 0.95
             else 1.0 + capped_growth * of_int months_ahead * 1.2);
          moderate_multiplier =
            (if 0 \<le> capped_growth then 1.0 + capped_growth * of_int months_ahead else 1.0);
          optimistic_multiplier =
            (if 0 \<le> capped_growth then 1.0 + capped_growth * of_int months_ahead * 1.5
             else 1.02 ^ nat months_ahead);
          moderate_forecast = baseline * moderate_multiplier;
          conservative_forecast = min (baseline * conservative_multiplier) moderate_forecast;
          optimistic_forecast = max (baseline * optimistic_multiplier) moderate_forecast
      in \<lparr>forecast_month = get_next_month last_yearmonth i,
          conservative = py_round conservative_forecast 2,
          moderate = py_round moderate_forecast 2,
          optimistic = py_round optimistic_forecast 2,
          growth_rate = py_round capped_growth 4\<rparr>)"

record forecast_summary =
  forecast :: "forecast_row list"
  all_time_average :: real
  last_3_months_average :: real
  last_6_months_average :: real
  baseline_recent_median :: real
  median_monthly_growth :: real
  applied_growth_rate :: real

text \<open>
  The forecast for months that passed the insufficiency check.  \<^verbatim>\<open>median_growth\<close> is
  assigned only when at least three growth rates survived, but the summary reads it
  whenever at least one did: with one or two survivors that read is an UnboundLocalError.
\<close>

definition forecast_from :: "monthly list \<Rightarrow> year_month \<Rightarrow> py_error + forecast_summary" where
  "forecast_from monthly_data current_yearmonth =
     (let revenues = map monthly_revenue monthly_data;
          recent_revenues = tail (min 9 (length monthly_data)) revenues;
          last_3_avg = mean (tail 3 revenues);
          last_6_avg = mean (tail 6 revenues);
          baseline = median recent_revenues;
          recent_growth_rates = growth_rates recent_revenues;
          capped_growth = capped_growth_of recent_growth_rates last_3_avg last_6_avg;
          last_data_yearmonth = year_month (last monthly_data);
          offset = start_month_offset last_data_yearmonth current_yearmonth;
          forecast_months =
            map (forecast_for baseline capped_growth last_data_yearmonth offset)
              [offset, offset + 1, offset + 2]
      in if 0 < length recent_growth_rates \<and> length recent_growth_rates < 3
         then Inl UnboundLocalError
         else Inr \<lparr>forecast = forecast_months,
                   all_time_average = py_round (mean revenues) 2,
                   last_3_months_average = py_round last_3_avg 2,
                   last_6_months_average = py_round last_6_avg 2,
                   baseline_recent_median = py_round baseline 2,
                   median_monthly_growth =
                     (if 0 < length recent_growth_rates
                      then py_round (median recent_growth_rates) 4 else 0.0),
                   applied_growth_rate = py_round capped_growth 4\<rparr>)"

text \<open>
  \<^verbatim>\<open>create_forecast_sheet\<close> on the monthly aggregate and the current month: \<open>Inr None\<close> is
  the \<^verbatim>\<open>return None\<close> of the insufficient-data branch.
\<close>

definition create_forecast_sheet ::
  "monthly list \<Rightarrow> year_month \<Rightarrow> py_error + forecast_summary option" where
  "create_forecast_sheet monthly_data current_yearmonth =
     (let full_months = filter_partial_months monthly_data
      in if 6 \<le> length full_months
         then (case forecast_from full_months current_yearmonth of
                 Inl e \<Rightarrow> Inl e
               | Inr summary \<Rightarrow> Inr (Some summary))
         else Inr None)"

section \<open>Example inputs\<close>

text \<open>
  A stored row, a capture of the same appointment at another price, and two new
  appointments; a row as the historical script lays it out (mega-category in the fifth
  cell); and stand-ins for the three Python functions, right on every string used below:
  no price cell holds a numeric text, and every date has the shape \<^verbatim>\<open>YYYY-MM-DD\<close>.
\<close>

definition stored_row :: sheet_row where
  "stored_row =
     \<lparr>c_date = CStr ''2024-01-05'', c_client = CStr ''Ana Pop'', c_service = CStr ''Epilat'',
      c_category = CStr ''Epilat'', c_price = CNum 100\<rparr>"

definition historical_row :: sheet_row where
  "historical_row =
     \<lparr>c_date = CStr ''2024-01-03'', c_client = CStr ''Elena Stan'', c_service = CStr ''Epilat'',
      c_category = CStr ''Epilat'', c_price = CStr ''Epilare''\<rparr>"

definition recaptured_row :: "string appointment" where
  "recaptured_row =
     \<lparr>date = ''2024-01-05'', service = ''Epilat'', category = ''Epilat'', mega_category = None,
      price = JInt 120, client = ''Ana Pop''\<rparr>"

definition later_appointment :: "string appointment" where
  "later_appointment =
     \<lparr>date = ''2024-01-09'', service = ''Pensat'', category = ''Pensat'', mega_category = None,
      price = JInt 50, client = ''Ioana Radu''\<rparr>"

definition earlier_appointment :: "string appointment" where
  "earlier_appointment =
     \<lparr>date = ''2024-01-07'', service = ''Laminare'', category = ''Laminare'',
      mega_category = None, price = JInt 80, client = ''Maria Dinu''\<rparr>"

definition later_row :: sheet_row where
  "later_row =
     \<lparr>c_date = CStr ''2024-01-09'', c_client = CStr ''Ioana Radu'', c_service = CStr ''Pensat'',
      c_category = CStr ''Pensat'', c_price = CNum 50\<rparr>"

definition earlier_row :: sheet_row where
  "earlier_row =
     \<lparr>c_date = CStr ''2024-01-07'', c_client = CStr ''Maria Dinu'',
      c_service = CStr ''Laminare'', c_category = CStr ''Laminare'', c_price = CNum 80\<rparr>"

definition no_digits :: "real \<Rightarrow> string" where
  "no_digits r = []"

definition not_a_number :: "string \<Rightarrow> real option" where
  "not_a_number s = None"

definition date_shaped :: "string \<Rightarrow> bool" where
  "date_shaped s = (length s = 10 \<and> s ! 4 = CHR ''-'' \<and> s ! 7 = CHR ''-'')"

text \<open>Booked services: the four shapes of price data, and an entry around a list of them.\<close>

definition custom_fixed_service :: "(string \<times> json) list" where
  "custom_fixed_service =
     [(''name'', JStr ''Epilat''),
      (''customPrice'',
         JObj [(''type'', JStr ''Fixed''),
               (''fixed'', JObj [(''amount'',
                  JObj [(''value'', JInt 15000), (''scale'', JInt 2)])])])]"

definition simple_price :: json where
  "simple_price = JObj [(''type'', JInt 1), (''fixed'', JInt 200)]"

definition simple_fixed_service :: "(string \<times> json) list" where
  "simple_fixed_service = [(''name'', JStr ''Pensat''), (''price'', simple_price)]"

definition unpriced_service :: "(string \<times> json) list" where
  "unpriced_service = [(''name'', JStr ''Peeling'')]"

definition custom_percent_service :: "(string \<times> json) list" where
  "custom_percent_service =
     [(''name'', JStr ''Laminare''),
      (''customPrice'', JObj [(''type'', JStr ''Percent'')]),
      (''price'', simple_price)]"

definition custom_free_service :: "(string \<times> json) list" where
  "custom_free_service =
     [(''name'', JStr ''Tratament''),
      (''customPrice'', JObj [(''type'', JStr ''Free'')]),
      (''price'', simple_price)]"

definition custom_fixed_no_amount_service :: "(string \<times> json) list" where
  "custom_fixed_no_amount_service =
     [(''name'', JStr ''Peeling''),
      (''customPrice'', JObj [(''type'', JStr ''Fixed''), (''fixed'', JObj [])]),
      (''price'', simple_price)]"

definition entry_with :: "json list \<Rightarrow> json" where
  "entry_with booked_services =
     JObj [(''type'', JInt 0),
           (''localStart'', JObj [(''dateStr'', JStr ''2024-01-05'')]),
           (''payload'',
              JObj [(''client'', JObj [(''firstname'', JStr ''Ana''), (''lastname'', JStr ''Pop'')]),
                    (''bookedServices'', JArr booked_services)])]"

text \<open>Monthly aggregates: consecutive months from a first month, as (revenue, bookings).\<close>

definition months_from :: "year_month \<Rightarrow> (real \<times> nat) list \<Rightarrow> monthly list" where
  "months_from start rows =
     map (\<lambda>(i, r). \<lparr>year_month = get_next_month start (int i), monthly_revenue = fst r,
                      monthly_bookings = snd r\<rparr>) (enumerate 0 rows)"

definition steady_months :: "monthly list" where
  "steady_months = months_from (2024, 1)
     [(1000, 40), (1050, 42), (1100, 41), (1080, 40), (1120, 43), (1150, 44), (1130, 42),
      (1160, 45), (1180, 44)]"

definition declining_months :: "monthly list" where
  "declining_months = months_from (2024, 1)
     [(2000, 40), (1900, 42), (1800, 41), (1750, 40), (1700, 43), (1600, 44), (1550, 3)]"

definition short_months :: "monthly list" where
  "short_months = months_from (2024, 1)
     [(2000, 40), (1900, 42), (1800, 41), (1750, 40), (1700, 43), (150, 3)]"

definition boundary_months :: "monthly list" where
  "boundary_months = months_from (2024, 1)
     [(1000, 40), (1300, 40), (1690, 40), (2197, 40), (2197, 40), (2197, 40), (2197, 40)]"

definition doubling_months :: "monthly list" where
  "doubling_months = months_from (2024, 1)
     [(1000, 40), (2000, 40), (4000, 40), (8000, 40), (8000, 40), (8000, 40)]"

text \<open>Appointments for the totals sheets: category, mega-category and price.\<close>

definition priced :: "string \<Rightarrow> string \<Rightarrow> json \<Rightarrow> string appointment" where
  "priced c m p =
     \<lparr>date = ''2024-01-05'', service = c, category = c, mega_category = Some m, price = p,
      client = ''Ana Pop''\<rparr>"

definition thirds_store :: "string appointment list" where
  "thirds_store =
     [priced ''Epilat'' ''Epilare'' (JInt 10), priced ''Pensat'' ''Sprancene'' (JFloat 5),
      priced ''Peeling'' ''Tratamente'' (JInt 10), priced ''Pensat'' ''Sprancene'' (JInt 5)]"

definition free_store :: "string appointment list" where
  "free_store = [priced ''Epilat'' ''Epilare'' (JInt 0), priced ''Pensat'' ''Sprancene'' (JInt 0)]"

section \<open>Properties of the classifier\<close>

lemma first_match_find:
  "first_match rules s =
     (case find (\<lambda>(c, p). re_search p s) rules of
        None \<Rightarrow> ''Other'' | Some (c, p) \<Rightarrow> c)"
  by (induction rules s rule: first_match.induct) simp_all

lemma first_match_range: "first_match rules s \<in> insert ''Other'' (set (map fst rules))"
  by (induction rules s rule: first_match.induct) auto

lemma names_daily: "category_names = map fst categories_daily @ [''Other'']"
  by (simp add: categories_daily_def category_names_def)

lemma names_historical:
  "set (map fst categories_historical) \<subseteq> set (category_names @ [''DermaPen''])"
  unfolding categories_historical_def category_names_def
  by (simp del: set_simps add: list.set)

lemma other_is_category: "''Other'' \<in> set (category_names @ extra)"
  by (simp add: category_names_def)

lemma extract_category_daily_range: "extract_category_daily s \<in> set category_names"
  using first_match_range [of categories_daily s]
  unfolding extract_category_daily_def names_daily by simp

lemma extract_category_historical_range:
  "extract_category_historical s \<in> set (category_names @ [''DermaPen''])"
proof -
  have "first_match categories_historical s = ''Other''
        \<or> first_match categories_historical s \<in> set (map fst categories_historical)"
    using first_match_range [of categories_historical s] by simp
  then show ?thesis
  proof
    assume "first_match categories_historical s = ''Other''"
    then show ?thesis
      unfolding extract_category_historical_def using other_is_category [of "[''DermaPen'']"]
      by simp
  next
    assume "first_match categories_historical s \<in> set (map fst categories_historical)"
    then show ?thesis
      unfolding extract_category_historical_def using names_historical by (rule subsetD [rotated])
  qed
qed

text \<open>
  C4, as amended.  Both classifiers are total functions of the service name that return the
  category of the first rule (in table order) whose pattern is found, and \<open>Other\<close> when no
  rule matches.  The daily classifier always answers inside the ten enumerated categories;
  the historical classifier answers inside those ten or the eleventh category \<open>DermaPen\<close>
  that its table carries as a rule of its own.
\<close>

theorem extract_category_first_match_in_taxonomy:
  "extract_category_daily s =
     (case find (\<lambda>(c, p). re_search p s) categories_daily of
        None \<Rightarrow> ''Other'' | Some (c, p) \<Rightarrow> c)
   \<and> extract_category_daily s \<in> set category_names
   \<and> extract_category_historical s =
     (case find (\<lambda>(c, p). re_search p s) categories_historical of
        None \<Rightarrow> ''Other'' | Some (c, p) \<Rightarrow> c)
   \<and> extract_category_historical s \<in> set (category_names @ [''DermaPen''])"
  using extract_category_daily_range [of s] extract_category_historical_range [of s]
  by (simp only: extract_category_daily_def extract_category_historical_def first_match_find
        simp_thms)

text \<open>
  C4 as stated fails for the historical script: the service name \<open>DermaPen\<close> is classified
  as \<open>DermaPen\<close>, which is not one of the ten enumerated categories.
\<close>

theorem extract_category_historical_dermapen_outside:
  "extract_category_historical ''DermaPen'' = ''DermaPen''
   \<and> extract_category_historical ''DermaPen'' \<notin> set category_names"
  by code_simp

text \<open>
  C9.  The two classifiers disagree: on the service name \<open>ProBrows\<close> the daily script
  answers \<open>Pensat\<close> (its first rule is \<^verbatim>\<open>Pensat|ProBrows\<close>), the historical script
  answers \<open>ProBrows\<close> (a rule of its own, placed after \<open>Pensat\<close>).
\<close>

theorem extract_category_scripts_disagree:
  "extract_category_daily ''ProBrows'' = ''Pensat''
   \<and> extract_category_historical ''ProBrows'' = ''ProBrows''
   \<and> (\<exists>s. extract_category_daily s \<noteq> extract_category_historical s)"
proof -
  have d: "extract_category_daily ''ProBrows'' = ''Pensat''" by code_simp
  have h: "extract_category_historical ''ProBrows'' = ''ProBrows''" by code_simp
  have "extract_category_daily ''ProBrows'' \<noteq> extract_category_historical ''ProBrows''"
    unfolding d h by simp
  then show ?thesis using d h by blast
qed


section \<open>Properties of the merge\<close>

lemma filter_new_filter:
  "filter_new existing_keys captured acc =
     acc @ filter (\<lambda>appt. appointment_key appt \<notin> existing_keys) captured"
  by (induction captured arbitrary: acc) simp_all

lemma merge_filter:
  "merge existing_keys captured =
     filter (\<lambda>appt. appointment_key appt \<notin> existing_keys) captured"
  by (simp add: merge_def filter_new_filter)

lemma load_rows_keys:
  "load_rows num_str rows existing = existing \<union> set (stored_keys num_str rows)"
  by (induction rows arbitrary: existing) (auto simp: stored_keys_def)

lemma load_existing_keys:
  "load_existing_appointments num_str raw_data = set (stored_keys num_str raw_data)"
  by (simp add: load_existing_appointments_def load_rows_keys)

lemma stored_keys_append:
  "stored_keys num_str (rows @ rows') = stored_keys num_str rows @ stored_keys num_str rows'"
  by (simp add: stored_keys_def)

lemma append_row_key:
  assumes "append_row appt = Inr row" "client appt \<noteq> []" "service appt \<noteq> []"
  shows "stored_keys num_str [row] = (if date appt = [] then [] else [appointment_key appt])"
  using assms
  by (cases "date appt = []")
    (auto simp: append_row_def stored_keys_def row_key_def cell_format_def text_cell_def
      cell_truthy_def appointment_key_def split: sum.splits)

lemma append_rows_keys:
  "append_rows appts = Inr rows \<Longrightarrow>
   \<forall>appt \<in> set appts. client appt \<noteq> [] \<and> service appt \<noteq> [] \<Longrightarrow>
   stored_keys num_str rows = map appointment_key (filter (\<lambda>appt. date appt \<noteq> []) appts)"
proof (induction appts arbitrary: rows)
  case Nil
  then show ?case by (simp add: stored_keys_def)
next
  case (Cons a appts)
  from Cons.prems(1) obtain r rs where
    r: "append_row a = Inr r" and rs: "append_rows appts = Inr rs" and rows: "rows = r # rs"
    by (auto split: sum.splits)
  have "stored_keys num_str (r # rs) = stored_keys num_str [r] @ stored_keys num_str rs"
    using stored_keys_append [of num_str "[r]" rs] by simp
  then show ?case
    using Cons.IH [OF rs] Cons.prems(2) append_row_key [OF r, of num_str] rows by simp
qed

lemma update_excel_file_saved:
  assumes "update_excel_file num_str str_float strptime_ok raw_data new_appointments = Inr saved"
  shows "saved = raw_data
         \<or> (\<exists>rows. append_rows (sort_key date new_appointments) = Inr rows
               \<and> saved = raw_data @ rows)"
  using assms by (auto simp: update_excel_file_def split: if_splits sum.splits)

lemma distinct_map_filter_sort:
  assumes "distinct (map f xs)"
  shows "distinct (map f (filter P (sort_key k xs)))"
proof -
  have "distinct (map f (sort_key k xs))"
    using assms by (simp add: distinct_map)
  then show ?thesis by (rule distinct_map_filter)
qed

text \<open>
  C1 as stated fails: the filter loop tests each captured appointment against the keys
  loaded from the sheet only, so two captured appointments with the same new key are both
  appended.  Here the sheet holds one row; the batch captures that appointment again and
  carries one new appointment twice.
\<close>

theorem daily_run_duplicate_in_batch:
  "keys_unique no_digits [stored_row]
   \<and> daily_run no_digits not_a_number date_shaped [stored_row]
         [recaptured_row, later_appointment, later_appointment]
       = Inr [stored_row, later_row, later_row]
   \<and> \<not> keys_unique no_digits
         (persisted_after [stored_row]
            (daily_run no_digits not_a_number date_shaped [stored_row]
               [recaptured_row, later_appointment, later_appointment]))"
  by code_simp

text \<open>
  C1, as amended.  If the dated rows of the sheet have pairwise distinct identity keys (the
  keys \<^verbatim>\<open>load_existing_appointments\<close> reads from the cells), and the captured appointments
  that pass the filter have pairwise distinct identity keys among themselves and non-empty
  client and service names, then the sheet on disk after the daily run again has pairwise
  distinct keys among its dated rows: it is the old rows followed by the new ones in date
  order when the update is saved, and the old sheet when nothing is new or
  \<^verbatim>\<open>update_excel_file\<close> raises before saving.
\<close>

theorem daily_run_keeps_keys_unique:
  assumes "keys_unique num_str raw_data"
    and "distinct (map appointment_key
           (merge (load_existing_appointments num_str raw_data) captured))"
    and "\<forall>appt \<in> set (merge (load_existing_appointments num_str raw_data) captured).
           client appt \<noteq> [] \<and> service appt \<noteq> []"
  shows "keys_unique num_str
           (persisted_after raw_data
              (daily_run num_str str_float strptime_ok raw_data captured))"
proof (cases "daily_run num_str str_float strptime_ok raw_data captured")
  case (Inl e)
  then show ?thesis using assms(1) by (simp add: persisted_after_def)
next
  case (Inr saved)
  let ?new = "merge (load_existing_appointments num_str raw_data) captured"
  from Inr have "saved = raw_data
         \<or> (\<exists>rows. append_rows (sort_key date ?new) = Inr rows \<and> saved = raw_data @ rows)"
    unfolding daily_run_def by (rule update_excel_file_saved)
  then show ?thesis
  proof
    assume "saved = raw_data"
    then show ?thesis using assms(1) Inr by (simp add: persisted_after_def)
  next
    assume "\<exists>rows. append_rows (sort_key date ?new) = Inr rows \<and> saved = raw_data @ rows"
    then obtain rows where rows: "append_rows (sort_key date ?new) = Inr rows"
      and saved: "saved = raw_data @ rows" by blast
    have named: "\<forall>appt \<in> set (sort_key date ?new). client appt \<noteq> [] \<and> service appt \<noteq> []"
      using assms(3) by simp
    have keys: "stored_keys num_str rows
                  = map appointment_key (filter (\<lambda>appt. date appt \<noteq> []) (sort_key date ?new))"
      by (rule append_rows_keys [OF rows named])
    have d: "distinct (stored_keys num_str rows)"
      unfolding keys using assms(2) by (rule distinct_map_filter_sort)
    have "set (stored_keys num_str rows) \<subseteq> appointment_key ` set ?new"
      unfolding keys by auto
    moreover have "appointment_key ` set ?new \<inter> set (stored_keys num_str raw_data) = {}"
      by (auto simp: merge_filter load_existing_keys)
    ultimately have disjoint:
      "set (stored_keys num_str raw_data) \<inter> set (stored_keys num_str rows) = {}"
      by blast
    have "distinct (stored_keys num_str (raw_data @ rows))"
      unfolding stored_keys_append using assms(1) d disjoint by (simp add: keys_unique_def)
    then show ?thesis using Inr saved by (simp add: persisted_after_def keys_unique_def)
  qed
qed

theorem daily_run_keeps_keys_unique_witness:
  "keys_unique no_digits [stored_row]
   \<and> merge (load_existing_appointments no_digits [stored_row])
         [recaptured_row, later_appointment, earlier_appointment]
       = [later_appointment, earlier_appointment]
   \<and> daily_run no_digits not_a_number date_shaped [stored_row]
         [recaptured_row, later_appointment, earlier_appointment]
       = Inr [stored_row, earlier_row, later_row]
   \<and> keys_unique no_digits
         (persisted_after [stored_row]
            (daily_run no_digits not_a_number date_shaped [stored_row]
               [recaptured_row, later_appointment, earlier_appointment]))
   \<and> keys_unique no_digits [historical_row, stored_row]
   \<and> daily_run no_digits not_a_number date_shaped [historical_row, stored_row]
         [recaptured_row, later_appointment, earlier_appointment]
       = Inl ValueError
   \<and> keys_unique no_digits
         (persisted_after [historical_row, stored_row]
            (daily_run no_digits not_a_number date_shaped [historical_row, stored_row]
               [recaptured_row, later_appointment, earlier_appointment]))"
proof -
  let ?captured = "[recaptured_row, later_appointment, earlier_appointment]"
  let ?new = "[later_appointment, earlier_appointment]"
  have h1: "keys_unique no_digits [stored_row]" by code_simp
  have g1: "keys_unique no_digits [historical_row, stored_row]" by code_simp
  have m: "merge (load_existing_appointments no_digits [stored_row]) ?captured = ?new"
    by code_simp
  have n: "merge (load_existing_appointments no_digits [historical_row, stored_row]) ?captured
             = ?new"
    by code_simp
  have d: "distinct (map appointment_key ?new)" by code_simp
  have c: "\<forall>appt \<in> set ?new. client appt \<noteq> [] \<and> service appt \<noteq> []"
    by code_simp
  have d1: "distinct (map appointment_key
              (merge (load_existing_appointments no_digits [stored_row]) ?captured))"
    unfolding m by (rule d)
  have c1: "\<forall>appt \<in> set (merge (load_existing_appointments no_digits [stored_row]) ?captured).
              client appt \<noteq> [] \<and> service appt \<noteq> []"
    unfolding m by (rule c)
  have d2: "distinct (map appointment_key
              (merge (load_existing_appointments no_digits [historical_row, stored_row])
                 ?captured))"
    unfolding n by (rule d)
  have c2: "\<forall>appt \<in> set (merge (load_existing_appointments no_digits
                                   [historical_row, stored_row]) ?captured).
              client appt \<noteq> [] \<and> service appt \<noteq> []"
    unfolding n by (rule c)
  have r: "daily_run no_digits not_a_number date_shaped [stored_row] ?captured
             = Inr [stored_row, earlier_row, later_row]"
    by code_simp
  have e: "daily_run no_digits not_a_number date_shaped [historical_row, stored_row] ?captured
             = Inl ValueError"
    by code_simp
  have k1: "keys_unique no_digits
              (persisted_after [stored_row]
                 (daily_run no_digits not_a_number date_shaped [stored_row] ?captured))"
    by (rule daily_run_keeps_keys_unique [OF h1 d1 c1])
  have k2: "keys_unique no_digits
              (persisted_after [historical_row, stored_row]
                 (daily_run no_digits not_a_number date_shaped [historical_row, stored_row]
                    ?captured))"
    by (rule daily_run_keeps_keys_unique [OF g1 d2 c2])
  show ?thesis using h1 m r k1 g1 e k2 by (intro conjI)
qed

text \<open>
  C2.  The merge is idempotent: merging the same captured sequence against the original
  keys joined with the keys of the first merge's output yields the empty sequence.
\<close>

theorem merge_idempotent:
  "merge (existing_keys \<union> appointment_key ` set (merge existing_keys captured)) captured = []"
  unfolding merge_filter by (auto simp: filter_empty_conv)

section \<open>Properties of the price resolution\<close>

lemma py_get_obj:
  "py_get (JObj kvs) k d = Inr (case map_of kvs k of None \<Rightarrow> d | Some v \<Rightarrow> v)"
  by (simp add: py_get_def)

lemma bind_err_Inr: "bind_err (Inr x) f = f x"
  by (simp add: bind_err_def)

lemma service_price_custom:
  "map_of booked ''customPrice'' = Some custom_price \<Longrightarrow>
   service_price booked =
     bind_err (py_get custom_price ''type'' JNull) (\<lambda>t.
       if t = JStr ''Fixed'' then
         bind_err (py_get custom_price ''fixed'' (JObj [])) (\<lambda>fixed.
         bind_err (py_get fixed ''amount'' (JObj [])) (\<lambda>amount_data.
         bind_err (py_get amount_data ''value'' (JInt 0)) (\<lambda>value.
         bind_err (py_get amount_data ''scale'' (JInt 0)) (\<lambda>scale.
         bind_err (py_gt0 scale) (\<lambda>positive.
           if positive then py_truediv value (py_pow10 scale) else Inr value)))))
       else Inr (JInt 0))"
  by (simp add: service_price_def)

lemma service_price_simple:
  "map_of booked ''customPrice'' = None \<Longrightarrow>
   service_price booked =
     (case map_of booked ''price'' of
        Some price_data \<Rightarrow>
          bind_err (py_get price_data ''type'' JNull) (\<lambda>t.
            if py_eq_num t 1 then py_get price_data ''fixed'' (JInt 0) else Inr (JInt 0))
      | None \<Rightarrow> Inr (JInt 0))"
  by (simp add: service_price_def)

lemma custom_fixed_amount:
  assumes "map_of booked ''customPrice'' = Some (JObj cp)"
    and "map_of cp ''type'' = Some (JStr ''Fixed'')"
    and "map_of cp ''fixed'' = Some (JObj fx)"
    and "map_of fx ''amount'' = Some (JObj am)"
    and "map_of am ''value'' = Some v" and "py_num v = Some x"
    and "map_of am ''scale'' = Some (JInt sc)"
  shows "service_price booked = Inr (if 0 < sc then JFloat (x / 10 ^ nat sc) else v)"
  using assms
  by (simp add: service_price_custom py_get_obj bind_err_Inr py_gt0_def py_num_def
      py_truediv_def py_pow10_def)

lemma custom_not_fixed:
  assumes "map_of booked ''customPrice'' = Some (JObj cp)"
    and "map_of cp ''type'' \<noteq> Some (JStr ''Fixed'')"
  shows "service_price booked = Inr (JInt 0)"
  using assms
  by (simp add: service_price_custom py_get_obj bind_err_Inr split: option.splits)

lemma custom_amount_absent:
  assumes "map_of booked ''customPrice'' = Some (JObj cp)"
    and "map_of cp ''fixed'' = None
         \<or> (map_of cp ''fixed'' = Some (JObj fx) \<and> map_of fx ''amount'' = None)"
  shows "service_price booked = Inr (JInt 0)"
proof -
  have amount:
    "bind_err (py_get (JObj cp) ''fixed'' (JObj [])) (\<lambda>fixed.
     bind_err (py_get fixed ''amount'' (JObj [])) (\<lambda>amount_data.
     bind_err (py_get amount_data ''value'' (JInt 0)) (\<lambda>value.
     bind_err (py_get amount_data ''scale'' (JInt 0)) (\<lambda>scale.
     bind_err (py_gt0 scale) (\<lambda>positive.
       if positive then py_truediv value (py_pow10 scale) else Inr value))))) = Inr (JInt 0)"
    using assms(2) by (auto simp add: py_get_obj bind_err_Inr py_gt0_def py_num_def)
  show ?thesis
    unfolding service_price_custom [OF assms(1)] amount
    by (simp add: py_get_obj bind_err_Inr)
qed

lemma simple_fixed:
  assumes "map_of booked ''customPrice'' = None"
    and "map_of booked ''price'' = Some (JObj pd)"
    and "map_of pd ''type'' = Some t" and "py_eq_num t 1"
  shows "service_price booked =
           Inr (case map_of pd ''fixed'' of None \<Rightarrow> JInt 0 | Some amount \<Rightarrow> amount)"
  using assms
  by (simp add: service_price_simple py_get_obj bind_err_Inr)

lemma simple_not_fixed:
  assumes "map_of booked ''customPrice'' = None"
    and "map_of booked ''price'' = None \<or>
         (map_of booked ''price'' = Some (JObj pd) \<and>
          (case map_of pd ''type'' of None \<Rightarrow> True | Some t \<Rightarrow> \<not> py_eq_num t 1))"
  shows "service_price booked = Inr (JInt 0)"
  using assms
  by (auto simp add: service_price_simple py_get_obj bind_err_Inr py_eq_num_def py_num_def
      split: option.splits)

lemma price_field_ignored:
  assumes "map_of booked ''customPrice'' = Some cp" "map_of booked' ''customPrice'' = Some cp"
  shows "service_price booked' = service_price booked"
  using assms by (simp add: service_price_custom)

text \<open>Every appointment of a parsed entry carries the price of its booked service.\<close>

lemma parse_services_prices:
  "parse_services fmt classify mega date_str payload booked_services = Inr appointments \<Longrightarrow>
   list_all2 (\<lambda>booked appt. \<exists>kvs. booked = JObj kvs \<and> service_price kvs = Inr (price appt))
     booked_services appointments"
proof (induction booked_services arbitrary: appointments)
  case Nil
  then show ?case by simp
next
  case (Cons b bs)
  then show ?case
    by (auto simp: parse_service_def bind_err_def split: sum.splits json.splits)
qed

lemma parse_appointment_prices:
  assumes "parse_appointment fmt classify mega (JObj entry) = Some appointments"
    and "map_of entry ''payload'' = Some (JObj payload)"
    and "map_of payload ''bookedServices'' = Some (JArr booked_services)"
  shows "list_all2
           (\<lambda>booked appt. \<exists>kvs. booked = JObj kvs \<and> service_price kvs = Inr (price appt))
           booked_services appointments"
proof -
  have "\<exists>date_str. parse_services fmt classify mega date_str payload booked_services
          = Inr appointments"
    using assms
    by (auto simp: parse_appointment_def parse_entry_def py_get_obj bind_err_def py_iter_def
        split: sum.splits if_splits option.splits)
  then show ?thesis
    using parse_services_prices by blast
qed


text \<open>
  C3 as stated fails: a booked service whose \<^verbatim>\<open>customPrice\<close> is not of the fixed-amount
  type and whose \<^verbatim>\<open>price\<close> field is of the fixed type with amount 200 gets price 0, not
  200, because the \<^verbatim>\<open>elif "price" in service\<close> branch is not entered.
\<close>

theorem custom_percent_price_not_simple_amount:
  "map_of custom_percent_service ''customPrice'' = Some (JObj [(''type'', JStr ''Percent'')])
   \<and> map_of custom_percent_service ''price''
       = Some (JObj [(''type'', JInt 1), (''fixed'', JInt 200)])
   \<and> service_price custom_percent_service = Inr (JInt 0)
   \<and> map_option (map price)
         (parse_appointment_daily (\<lambda>v. []) (entry_with [JObj custom_percent_service]))
       = Some [JInt 0]"
  by code_simp

text \<open>
  C3, as amended.  For every booked service inside a parsed entry the appointment price is
  the one resolved from the service dict, by key presence:
  if the key \<^verbatim>\<open>customPrice\<close> is present with type \<^verbatim>\<open>"Fixed"\<close>, the price is
  \<open>value / 10 ^ scale\<close> when the (integer) scale is positive and the value unchanged when the
  scale is 0 or negative; if the key \<^verbatim>\<open>customPrice\<close> is present with another type, the price
  is 0 whatever the \<^verbatim>\<open>price\<close> field holds; if the key \<^verbatim>\<open>customPrice\<close> is absent and a
  \<^verbatim>\<open>price\<close> field of type 1 is present, the price is its \<^verbatim>\<open>fixed\<close> amount (0 when that is
  missing); otherwise the price is 0.
\<close>

theorem service_price_precedence:
  "(parse_appointment fmt classify mega (JObj entry) = Some appointments
      \<and> map_of entry ''payload'' = Some (JObj payload)
      \<and> map_of payload ''bookedServices'' = Some (JArr booked_services)
    \<longrightarrow> list_all2
          (\<lambda>booked appt. \<exists>kvs. booked = JObj kvs \<and> service_price kvs = Inr (price appt))
          booked_services appointments)
   \<and> (map_of booked ''customPrice'' = Some (JObj cp)
      \<and> map_of cp ''type'' = Some (JStr ''Fixed'')
      \<and> map_of cp ''fixed'' = Some (JObj fx)
      \<and> map_of fx ''amount'' = Some (JObj am)
      \<and> map_of am ''value'' = Some v \<and> py_num v = Some x
      \<and> map_of am ''scale'' = Some (JInt sc)
    \<longrightarrow> service_price booked = Inr (if 0 < sc then JFloat (x / 10 ^ nat sc) else v))
   \<and> (map_of booked ''customPrice'' = Some (JObj cp)
      \<and> map_of cp ''type'' \<noteq> Some (JStr ''Fixed'')
    \<longrightarrow> service_price booked = Inr (JInt 0))
   \<and> (map_of booked ''customPrice'' = None
      \<and> map_of booked ''price'' = Some (JObj pd)
      \<and> map_of pd ''type'' = Some t \<and> py_eq_num t 1
    \<longrightarrow> service_price booked
          = Inr (case map_of pd ''fixed'' of None \<Rightarrow> JInt 0 | Some amount \<Rightarrow> amount))
   \<and> (map_of booked ''customPrice'' = None
      \<and> (map_of booked ''price'' = None
          \<or> (map_of booked ''price'' = Some (JObj pd)
              \<and> (case map_of pd ''type'' of None \<Rightarrow> True | Some t \<Rightarrow> \<not> py_eq_num t 1)))
    \<longrightarrow> service_price booked = Inr (JInt 0))"
  using parse_appointment_prices [of fmt classify mega entry appointments payload booked_services]
    custom_fixed_amount [of booked cp fx am v x sc]
    custom_not_fixed [of booked cp]
    simple_fixed [of booked pd t]
    simple_not_fixed [of booked pd]
  by blast

theorem service_price_precedence_witness:
  "parse_appointment_daily (\<lambda>v. []) (entry_with [JObj custom_fixed_service])
     = Some [\<lparr>date = JStr ''2024-01-05'', service = ''Epilat'', category = ''Epilat'',
              mega_category = None, price = JFloat 150, client = ''Ana Pop''\<rparr>]
   \<and> service_price custom_fixed_service = Inr (JFloat 150)
   \<and> service_price custom_percent_service = Inr (JInt 0)
   \<and> service_price simple_fixed_service = Inr (JInt 200)
   \<and> service_price unpriced_service = Inr (JInt 0)"
proof -
  let ?appt = "\<lparr>date = JStr ''2024-01-05'', service = ''Epilat'', category = ''Epilat'',
              mega_category = None, price = JFloat 150, client = ''Ana Pop''\<rparr>"
  let ?payload = "[(''client'', JObj [(''firstname'', JStr ''Ana''), (''lastname'', JStr ''Pop'')]),
                    (''bookedServices'', JArr [JObj custom_fixed_service])]"
  let ?entry = "[(''type'', JInt 0),
           (''localStart'', JObj [(''dateStr'', JStr ''2024-01-05'')]),
           (''payload'', JObj ?payload)]"
  let ?am = "[(''value'', JInt 15000), (''scale'', JInt 2)]"
  let ?fx = "[(''amount'', JObj ?am)]"
  let ?cp = "[(''type'', JStr ''Fixed''), (''fixed'', JObj ?fx)]"
  have parsed:
    "parse_appointment (\<lambda>v. []) extract_category_daily None (JObj ?entry) = Some [?appt]"
    by code_simp
  have "list_all2
          (\<lambda>booked appt. \<exists>kvs. booked = JObj kvs \<and> service_price kvs = Inr (price appt))
          [JObj custom_fixed_service] [?appt]"
    using parsed
    by (intro service_price_precedence [where fmt = "\<lambda>v. []" and classify = extract_category_daily
        and mega = None and entry = ?entry and appointments = "[?appt]" and payload = ?payload
        and booked_services = "[JObj custom_fixed_service]", THEN conjunct1, rule_format] conjI)
      simp_all
  then have c0: "service_price custom_fixed_service = Inr (JFloat 150)" by simp
  have "service_price custom_fixed_service
          = Inr (if (0::int) < 2 then JFloat (15000 / 10 ^ nat 2) else JInt 15000)"
    by (intro service_price_precedence [where booked = custom_fixed_service and cp = ?cp
        and fx = ?fx and am = ?am and v = "JInt 15000" and x = 15000 and sc = 2,
        THEN conjunct2, THEN conjunct1, rule_format] conjI)
      (simp_all add: custom_fixed_service_def py_num_def)
  have c2: "service_price custom_percent_service = Inr (JInt 0)"
    by (intro service_price_precedence [where booked = custom_percent_service
        and cp = "[(''type'', JStr ''Percent'')]",
        THEN conjunct2, THEN conjunct2, THEN conjunct1, rule_format] conjI)
      (simp_all add: custom_percent_service_def)
  have "service_price simple_fixed_service
          = Inr (case map_of [(''type'', JInt 1), (''fixed'', JInt 200)] ''fixed'' of
                   None \<Rightarrow> JInt 0 | Some amount \<Rightarrow> amount)"
    by (intro service_price_precedence [where booked = simple_fixed_service
        and pd = "[(''type'', JInt 1), (''fixed'', JInt 200)]" and t = "JInt 1",
        THEN conjunct2, THEN conjunct2, THEN conjunct2, THEN conjunct1, rule_format] conjI)
      (simp_all add: simple_fixed_service_def simple_price_def py_eq_num_def py_num_def)
  then have c3: "service_price simple_fixed_service = Inr (JInt 200)" by simp
  have c4: "service_price unpriced_service = Inr (JInt 0)"
    by (intro service_price_precedence [where booked = unpriced_service,
        THEN conjunct2, THEN conjunct2, THEN conjunct2, THEN conjunct2, rule_format] conjI disjI1)
      (simp_all add: unpriced_service_def)
  have p: "parse_appointment_daily (\<lambda>v. []) (entry_with [JObj custom_fixed_service])
             = Some [?appt]"
    using parsed by (simp only: parse_appointment_daily_def entry_with_def)
  show ?thesis using p c0 c2 c3 c4 by (intro conjI)
qed

text \<open>
  C10.  The price branch is selected by key presence, not by successful resolution: a booked
  service whose \<^verbatim>\<open>customPrice\<close> dict is not of type \<^verbatim>\<open>"Fixed"\<close>, or carries no nested
  amount, gets price 0 whatever its \<^verbatim>\<open>price\<close> field holds; and two service dicts with the
  same \<^verbatim>\<open>customPrice\<close> value get the same price, so the \<^verbatim>\<open>price\<close> field is read only
  when the key \<^verbatim>\<open>customPrice\<close> is absent.
\<close>

theorem custom_price_key_shadows_price:
  "(map_of booked ''customPrice'' = Some (JObj cp)
      \<and> (map_of cp ''type'' \<noteq> Some (JStr ''Fixed'')
          \<or> map_of cp ''fixed'' = None
          \<or> (map_of cp ''fixed'' = Some (JObj fx) \<and> map_of fx ''amount'' = None))
    \<longrightarrow> service_price booked = Inr (JInt 0))
   \<and> (map_of booked ''customPrice'' = Some custom
      \<and> map_of booked' ''customPrice'' = Some custom
    \<longrightarrow> service_price booked' = service_price booked)"
  using custom_not_fixed [of booked cp] custom_amount_absent [of booked cp fx]
    price_field_ignored [of booked custom booked']
  by blast

theorem custom_price_key_shadows_price_witness:
  "map_of custom_free_service ''price'' = Some (JObj [(''type'', JInt 1), (''fixed'', JInt 200)])
   \<and> service_price custom_free_service = Inr (JInt 0)
   \<and> service_price custom_fixed_no_amount_service = Inr (JInt 0)
   \<and> service_price custom_free_service
       = service_price [(''name'', JStr ''Tratament''),
                        (''customPrice'', JObj [(''type'', JStr ''Free'')])]
   \<and> map_option (map price)
         (parse_appointment_historical (\<lambda>v. [])
            (entry_with [JObj custom_free_service, JObj custom_fixed_no_amount_service]))
       = Some [JInt 0, JInt 0]"
proof -
  have p: "map_of custom_free_service ''price''
             = Some (JObj [(''type'', JInt 1), (''fixed'', JInt 200)])"
    by (simp add: custom_free_service_def simple_price_def)
  have c1: "service_price custom_free_service = Inr (JInt 0)"
    by (intro custom_price_key_shadows_price [where booked = custom_free_service
        and cp = "[(''type'', JStr ''Free'')]", THEN conjunct1, rule_format] conjI disjI1)
      (simp_all add: custom_free_service_def)
  have c2: "service_price custom_fixed_no_amount_service = Inr (JInt 0)"
    by (intro custom_price_key_shadows_price [where booked = custom_fixed_no_amount_service
        and cp = "[(''type'', JStr ''Fixed''), (''fixed'', JObj [])]" and fx = "[]",
        THEN conjunct1, rule_format] conjI disjI2)
      (simp_all add: custom_fixed_no_amount_service_def)
  have c3: "service_price custom_free_service
       = service_price [(''name'', JStr ''Tratament''),
                        (''customPrice'', JObj [(''type'', JStr ''Free'')])]"
    by (intro custom_price_key_shadows_price [where custom = "JObj [(''type'', JStr ''Free'')]",
        THEN conjunct2, rule_format] conjI)
      (simp_all add: custom_free_service_def)
  have c4: "map_option (map price)
         (parse_appointment_historical (\<lambda>v. [])
            (entry_with [JObj custom_free_service, JObj custom_fixed_no_amount_service]))
       = Some [JInt 0, JInt 0]"
    by code_simp
  show ?thesis using p c1 c2 c3 c4 by (intro conjI)
qed

section \<open>Properties of the forecast engine\<close>

lemma round_half_even_cases:
  "round_half_even y = \<lfloor>y\<rfloor> \<or> round_half_even y = \<lfloor>y\<rfloor> + 1"
  by (simp add: round_half_even_def Let_def)

lemma round_half_even_error: "\<bar>of_int (round_half_even y) - y\<bar> \<le> 1 / 2"
proof -
  have "of_int \<lfloor>y\<rfloor> \<le> y" "y < of_int \<lfloor>y\<rfloor> + 1" by linarith+
  then show ?thesis
    by (auto simp add: round_half_even_def Let_def)
qed

lemma round_half_even_mono:
  assumes "x \<le> y"
  shows "round_half_even x \<le> round_half_even y"
proof (cases "\<lfloor>x\<rfloor> = \<lfloor>y\<rfloor>")
  case True
  then show ?thesis
    using assms by (auto simp add: round_half_even_def Let_def)
next
  case False
  then have "\<lfloor>x\<rfloor> + 1 \<le> \<lfloor>y\<rfloor>"
    using assms floor_mono [of x y] by linarith
  moreover have "round_half_even x \<le> \<lfloor>x\<rfloor> + 1"
    using round_half_even_cases [of x] by linarith
  moreover have "\<lfloor>y\<rfloor> \<le> round_half_even y"
    using round_half_even_cases [of y] by linarith
  ultimately show ?thesis by linarith
qed

lemma py_round_mono: "x \<le> y \<Longrightarrow> py_round x n \<le> py_round y n"
  unfolding py_round_def
  by (intro divide_right_mono round_half_even_mono mult_right_mono) (simp_all add: round_half_even_mono)

lemma py_round_error: "\<bar>py_round x n - x\<bar> \<le> 1 / (2 * 10 ^ n)"
proof -
  let ?r = "of_int (round_half_even (x * 10 ^ n)) :: real"
  have "\<bar>?r - x * 10 ^ n\<bar> \<le> 1 / 2"
    by (rule round_half_even_error)
  then have "\<bar>?r - x * 10 ^ n\<bar> / 10 ^ n \<le> (1 / 2) / 10 ^ n"
    by (intro divide_right_mono) simp_all
  moreover have "py_round x n - x = (?r - x * 10 ^ n) / 10 ^ n"
    by (simp add: py_round_def diff_divide_distrib)
  then have "\<bar>py_round x n - x\<bar> = \<bar>?r - x * 10 ^ n\<bar> / 10 ^ n"
    by (simp add: abs_divide)
  ultimately show ?thesis by simp
qed

lemma forecast_for_ordered:
  "conservative (forecast_for baseline g last_ym offset i) \<le> moderate (forecast_for baseline g last_ym offset i)
   \<and> moderate (forecast_for baseline g last_ym offset i) \<le> optimistic (forecast_for baseline g last_ym offset i)"
  by (simp add: forecast_for_def Let_def py_round_mono)


lemma forecast_from_ordered:
  "forecast_from monthly_data current_yearmonth = Inr summary \<Longrightarrow>
   length (forecast summary) = 3
   \<and> (\<forall>row \<in> set (forecast summary).
         conservative row \<le> moderate row \<and> moderate row \<le> optimistic row)"
  by (auto simp: forecast_from_def Let_def forecast_for_ordered split: if_splits)

text \<open>
  C5.  Every forecast month that \<^verbatim>\<open>create_forecast_sheet\<close> generates (there are three)
  satisfies Conservative \<open>\<le>\<close> Moderate \<open>\<le>\<close> Optimistic, in the non-negative-growth branch
  and in the negative-growth branch alike: the two outer scenarios are clamped toward the
  moderate one before the three values are rounded.
\<close>

theorem forecast_scenarios_ordered:
  assumes "create_forecast_sheet monthly_data current_yearmonth = Inr (Some summary)"
  shows "length (forecast summary) = 3
         \<and> (\<forall>row \<in> set (forecast summary).
               conservative row \<le> moderate row \<and> moderate row \<le> optimistic row)"
proof -
  have "forecast_from (filter_partial_months monthly_data) current_yearmonth = Inr summary"
    using assms
    by (simp add: create_forecast_sheet_def Let_def split: if_splits sum.splits)
  then show ?thesis by (rule forecast_from_ordered)
qed

theorem forecast_scenarios_ordered_witness:
  "(\<exists>summary. create_forecast_sheet steady_months (2024, 9) = Inr (Some summary)
      \<and> applied_growth_rate summary = 0.0267
      \<and> map (\<lambda>row. (forecast_month row, conservative row, moderate row, optimistic row))
            (forecast summary)
          = [((2024, 10), 1064, 1149.87, 1164.8), ((2024, 11), 1064, 1179.73, 1209.6),
             ((2024, 12), 1064, 1209.6, 1254.4)]
      \<and> list_all (\<lambda>row. conservative row \<le> moderate row \<and> moderate row \<le> optimistic row)
            (forecast summary))
   \<and> (\<exists>summary. create_forecast_sheet declining_months (2024, 7) = Inr (Some summary)
      \<and> applied_growth_rate summary = - 0.03
      \<and> map (\<lambda>row. (forecast_month row, conservative row, moderate row, optimistic row))
            (forecast summary)
          = [((2024, 8), 1711.1, 1775, 1810.5), ((2024, 9), 1647.2, 1775, 1846.71),
             ((2024, 10), 1583.3, 1775, 1883.64)]
      \<and> list_all (\<lambda>row. conservative row \<le> moderate row \<and> moderate row \<le> optimistic row)
            (forecast summary))"
proof -
  define up where
    "up = (case create_forecast_sheet steady_months (2024, 9) of Inr (Some summary) \<Rightarrow> summary)"
  define down where
    "down = (case create_forecast_sheet declining_months (2024, 7) of
               Inr (Some summary) \<Rightarrow> summary)"
  have u: "create_forecast_sheet steady_months (2024, 9) = Inr (Some up)"
    unfolding up_def by code_simp
  have d: "create_forecast_sheet declining_months (2024, 7) = Inr (Some down)"
    unfolding down_def by code_simp
  have ug: "applied_growth_rate up = 0.0267"
    unfolding up_def by code_simp
  have dg: "applied_growth_rate down = - 0.03"
    unfolding down_def by code_simp
  have uv: "map (\<lambda>row. (forecast_month row, conservative row, moderate row, optimistic row))
              (forecast up)
            = [((2024, 10), 1064, 1149.87, 1164.8), ((2024, 11), 1064, 1179.73, 1209.6),
               ((2024, 12), 1064, 1209.6, 1254.4)]"
    unfolding up_def by code_simp
  have dv: "map (\<lambda>row. (forecast_month row, conservative row, moderate row, optimistic row))
              (forecast down)
            = [((2024, 8), 1711.1, 1775, 1810.5), ((2024, 9), 1647.2, 1775, 1846.71),
               ((2024, 10), 1583.3, 1775, 1883.64)]"
    unfolding down_def by code_simp
  have uo: "list_all (\<lambda>row. conservative row \<le> moderate row \<and> moderate row \<le> optimistic row)
              (forecast up)"
    using forecast_scenarios_ordered [OF u, THEN conjunct2] by (simp only: list_all_iff)
  have do: "list_all (\<lambda>row. conservative row \<le> moderate row \<and> moderate row \<le> optimistic row)
              (forecast down)"
    using forecast_scenarios_ordered [OF d, THEN conjunct2] by (simp only: list_all_iff)
  show ?thesis
  proof (intro conjI)
    show "\<exists>summary. create_forecast_sheet steady_months (2024, 9) = Inr (Some summary)
      \<and> applied_growth_rate summary = 0.0267
      \<and> map (\<lambda>row. (forecast_month row, conservative row, moderate row, optimistic row))
            (forecast summary)
          = [((2024, 10), 1064, 1149.87, 1164.8), ((2024, 11), 1064, 1179.73, 1209.6),
             ((2024, 12), 1064, 1209.6, 1254.4)]
      \<and> list_all (\<lambda>row. conservative row \<le> moderate row \<and> moderate row \<le> optimistic row)
            (forecast summary)"
      using u ug uv uo by (intro exI [of _ up] conjI)
    show "\<exists>summary. create_forecast_sheet declining_months (2024, 7) = Inr (Some summary)
      \<and> applied_growth_rate summary = - 0.03
      \<and> map (\<lambda>row. (forecast_month row, conservative row, moderate row, optimistic row))
            (forecast summary)
          = [((2024, 8), 1711.1, 1775, 1810.5), ((2024, 9), 1647.2, 1775, 1846.71),
             ((2024, 10), 1583.3, 1775, 1883.64)]
      \<and> list_all (\<lambda>row. conservative row \<le> moderate row \<and> moderate row \<le> optimistic row)
            (forecast summary)"
      using d dg dv do by (intro exI [of _ down] conjI)
  qed
qed

text \<open>
  C6, evaluated at two inputs.  On seven months whose first three steps are rises of exactly
  30 percent, the filter \<^verbatim>\<open>abs(growth) < 0.3\<close> discards those three ratios although none of
  them exceeds 30 percent, and the applied growth rate is the median 0 of the three zero
  ratios that are left; the median of all six ratios, clamped, is 3 percent.  On six months
  with two surviving ratios the fallback rate of 1 percent is computed, and the summary
  then reads \<^verbatim>\<open>median_growth\<close>, which was never assigned.
\<close>

theorem growth_filter_boundary_and_unbound_median:
  "map monthly_revenue boundary_months = [1000, 1300, 1690, 2197, 2197, 2197, 2197]
   \<and> \<bar>(1300 - 1000) / 1000\<bar> = (0.3 :: real)
   \<and> \<bar>(1690 - 1300) / 1300\<bar> = (0.3 :: real)
   \<and> \<bar>(2197 - 1690) / 1690\<bar> = (0.3 :: real)
   \<and> growth_rates (map monthly_revenue boundary_months) = [0, 0, 0]
   \<and> map_sum id (map_option applied_growth_rate)
         (create_forecast_sheet boundary_months (2024, 7)) = Inr (Some 0)
   \<and> capped_growth_of [0.3, 0.3, 0.3, 0, 0, 0] 2197 1963 = 0.03
   \<and> growth_rates (map monthly_revenue doubling_months) = [0, 0]
   \<and> capped_growth_of (growth_rates (map monthly_revenue doubling_months))
         (mean (tail 3 (map monthly_revenue doubling_months)))
         (mean (tail 6 (map monthly_revenue doubling_months))) = 0.01
   \<and> create_forecast_sheet doubling_months (2024, 7) = Inl UnboundLocalError"
  by code_simp

text \<open>
  C7.  When fewer than six months are left after partial-month filtering,
  \<^verbatim>\<open>create_forecast_sheet\<close> returns \<^verbatim>\<open>None\<close>: no forecast, no zero-valued forecast and no
  exception; and it returns \<^verbatim>\<open>None\<close> in that case only.
\<close>

theorem insufficient_data_is_none:
  "(length (filter_partial_months monthly_data) < 6
      \<longrightarrow> create_forecast_sheet monthly_data current_yearmonth = Inr None)
   \<and> (create_forecast_sheet monthly_data current_yearmonth = Inr None
      \<longrightarrow> length (filter_partial_months monthly_data) < 6)"
  by (auto simp: create_forecast_sheet_def Let_def split: sum.splits)

theorem insufficient_data_is_none_witness:
  "length short_months = 6
   \<and> length (filter_partial_months short_months) = 5
   \<and> create_forecast_sheet short_months (2024, 7) = Inr None
   \<and> create_forecast_sheet [] (2024, 7) = Inr None"
proof -
  have l: "length short_months = 6" by code_simp
  have f: "length (filter_partial_months short_months) = 5" by code_simp
  have e: "length (filter_partial_months []) < 6" by code_simp
  have f': "length (filter_partial_months short_months) < 6"
    unfolding f by simp
  have s: "create_forecast_sheet short_months (2024, 7) = Inr None"
    by (rule insufficient_data_is_none [of short_months "(2024, 7)", THEN conjunct1, THEN mp,
          OF f'])
  have n: "create_forecast_sheet [] (2024, 7) = Inr None"
    by (rule insufficient_data_is_none [of "[]" "(2024, 7)", THEN conjunct1, THEN mp, OF e])
  show ?thesis using l f s n by (intro conjI)
qed

section \<open>Properties of the revenue shares\<close>

lemma sum_list_insort_key:
  "sum_list (map f (insort_key k x xs)) = (f x :: real) + sum_list (map f xs)"
  by (induction xs) (simp_all add: ac_simps)

lemma sum_list_sort_key: "sum_list (map f (sort_key k xs)) = sum_list (map (f :: 'a \<Rightarrow> real) xs)"
  by (induction xs) (simp_all add: sum_list_insort_key)

lemma sum_percent_of:
  "0 < g \<Longrightarrow> sum_list (map (\<lambda>kv. percent_of g (snd kv)) table)
     = sum_list (map (\<lambda>kv. revenue (snd kv)) table) / g * 100"
  by (induction table) (simp_all add: percent_of_def field_simps)

lemma percent_sum:
  assumes "0 < grand_total_revenue table"
  shows "sum_list (map percent (percent_rows table)) = 100"
proof -
  have "sum_list (map percent (percent_rows table))
          = sum_list (map (\<lambda>kv. percent_of (grand_total_revenue table) (snd kv))
              (sort_key (\<lambda>kv. - revenue (snd kv)) table))"
    by (simp add: percent_rows_def comp_def)
  also have "\<dots> = sum_list (map (\<lambda>kv. percent_of (grand_total_revenue table) (snd kv)) table)"
    by (rule sum_list_sort_key)
  also have "\<dots> = grand_total_revenue table / grand_total_revenue table * 100"
    using sum_percent_of [OF assms, of table] by (simp add: grand_total_revenue_def)
  finally show ?thesis using assms by simp
qed

lemma displayed_sum_close:
  "list_all (\<lambda>row. displayed row = py_round (percent row) 1) rows \<Longrightarrow>
   \<bar>sum_list (map displayed rows) - sum_list (map percent rows)\<bar> \<le> real (length rows) * 0.05"
proof (induction rows)
  case Nil
  then show ?case by simp
next
  case (Cons r rows)
  have a: "\<bar>displayed r - percent r\<bar> \<le> 0.05"
    using Cons.prems py_round_error [of "percent r" 1] by simp
  have b: "\<bar>sum_list (map displayed rows) - sum_list (map percent rows)\<bar>
             \<le> real (length rows) * 0.05"
    using Cons by simp
  have "sum_list (map displayed (r # rows)) - sum_list (map percent (r # rows))
          = (displayed r - percent r)
            + (sum_list (map displayed rows) - sum_list (map percent rows))"
    by simp
  then have "\<bar>sum_list (map displayed (r # rows)) - sum_list (map percent (r # rows))\<bar>
          \<le> \<bar>displayed r - percent r\<bar>
            + \<bar>sum_list (map displayed rows) - sum_list (map percent rows)\<bar>"
    by (simp only: abs_triangle_ineq)
  with a b show ?case by (simp add: algebra_simps)
qed

lemma displayed_is_rounded:
  "list_all (\<lambda>row. displayed row = py_round (percent row) 1) (percent_rows table)"
  by (simp add: percent_rows_def list_all_iff)

lemma py_round_zero: "py_round 0 n = 0"
  by (simp add: py_round_def round_half_even_def)

lemma percent_zero:
  assumes "grand_total_revenue table \<le> 0"
  shows "list_all (\<lambda>row. percent row = 0 \<and> displayed row = 0) (percent_rows table)"
  using assms by (simp add: percent_rows_def list_all_iff percent_of_def py_round_zero)

lemma grand_total_add:
  "grand_total_revenue (add_to_totals k p acc) = grand_total_revenue acc + p"
  by (induction k p acc rule: add_to_totals.induct) (simp_all add: grand_total_revenue_def)

lemma accumulate_grand_total:
  "accumulate lbl appts acc = Inr table \<Longrightarrow>
   grand_total_revenue table
     = grand_total_revenue acc + sum_list (map (\<lambda>appt. the (py_num (price appt))) appts)"
  by (induction appts arbitrary: acc) (auto simp: grand_total_add split: option.splits)

text \<open>
  C8.  For the rows of a totals sheet (category totals and mega-category totals are built
  by the same code): when the grand total revenue is positive the percentages sum to 100
  exactly, and the one-decimal numbers shown differ from 100 in sum by at most 0.05 per row;
  when the grand total revenue is not positive every percentage, exact and shown, is 0.
  The grand total is the summed price of the appointments the table was accumulated from.
\<close>

theorem percent_of_revenue_sums_to_100:
  "(0 < grand_total_revenue table
      \<longrightarrow> sum_list (map percent (percent_rows table)) = 100
          \<and> \<bar>sum_list (map displayed (percent_rows table)) - 100\<bar>
              \<le> real (length table) * 0.05)
   \<and> (grand_total_revenue table \<le> 0
      \<longrightarrow> list_all (\<lambda>row. percent row = 0 \<and> displayed row = 0) (percent_rows table))
   \<and> (accumulate lbl all_appts [] = Inr table
      \<longrightarrow> grand_total_revenue table
          = sum_list (map (\<lambda>appt. the (py_num (price appt))) all_appts))"
proof -
  have "\<bar>sum_list (map displayed (percent_rows table))
          - sum_list (map percent (percent_rows table))\<bar>
        \<le> real (length table) * 0.05"
    using displayed_sum_close [OF displayed_is_rounded, of table]
    by (simp add: percent_rows_def)
  moreover have "accumulate lbl all_appts [] = Inr table
      \<longrightarrow> grand_total_revenue table
          = sum_list (map (\<lambda>appt. the (py_num (price appt))) all_appts)"
    using accumulate_grand_total [of lbl all_appts "[]" table]
    by (simp add: grand_total_revenue_def)
  ultimately show ?thesis
    using percent_sum [of table] percent_zero [of table] by auto
qed

theorem percent_of_revenue_sums_to_100_witness:
  "(\<exists>table. category_totals thirds_store = Inr table
      \<and> grand_total_revenue table = 30
      \<and> map (\<lambda>row. (label row, percent row, displayed row)) (percent_rows table)
          = [(''Epilat'', 100 / 3, 33.3), (''Pensat'', 100 / 3, 33.3),
             (''Peeling'', 100 / 3, 33.3)]
      \<and> sum_list (map percent (percent_rows table)) = 100
      \<and> \<bar>sum_list (map displayed (percent_rows table)) - 100\<bar> \<le> 0.15)
   \<and> (\<exists>table. mega_category_totals thirds_store = Inr table
      \<and> sum_list (map percent (percent_rows table)) = 100)
   \<and> (\<exists>table. category_totals free_store = Inr table
      \<and> grand_total_revenue table = 0
      \<and> list_all (\<lambda>row. percent row = 0 \<and> displayed row = 0) (percent_rows table))"
proof -
  define cat where
    "cat = [(''Epilat'', \<lparr>count = 1, revenue = 10\<rparr>), (''Pensat'', \<lparr>count = 2, revenue = 10\<rparr>),
            (''Peeling'', \<lparr>count = 1, revenue = 10\<rparr>)]"
  define mega where
    "mega = [(''Epilare'', \<lparr>count = 1, revenue = 10\<rparr>),
             (''Sprancene'', \<lparr>count = 2, revenue = 10\<rparr>),
             (''Tratamente'', \<lparr>count = 1, revenue = 10\<rparr>)]"
  define free where
    "free = [(''Epilat'', \<lparr>count = 1, revenue = 0\<rparr>), (''Pensat'', \<lparr>count = 1, revenue = 0\<rparr>)]"
  have c: "category_totals thirds_store = Inr cat" unfolding cat_def by code_simp
  have m: "mega_category_totals thirds_store = Inr mega" unfolding mega_def by code_simp
  have f: "category_totals free_store = Inr free" unfolding free_def by code_simp
  have cg: "grand_total_revenue cat = 30" unfolding cat_def by code_simp
  have mg: "grand_total_revenue mega = 30" unfolding mega_def by code_simp
  have fg: "grand_total_revenue free = 0" unfolding free_def by code_simp
  have cr: "map (\<lambda>row. (label row, percent row, displayed row)) (percent_rows cat)
          = [(''Epilat'', 100 / 3, 33.3), (''Pensat'', 100 / 3, 33.3),
             (''Peeling'', 100 / 3, 33.3)]"
    unfolding cat_def by code_simp
  have cpos: "0 < grand_total_revenue cat" unfolding cg by simp
  have mpos: "0 < grand_total_revenue mega" unfolding mg by simp
  have fnon: "grand_total_revenue free \<le> 0" unfolding fg by simp
  have cs: "sum_list (map percent (percent_rows cat)) = 100
            \<and> \<bar>sum_list (map displayed (percent_rows cat)) - 100\<bar> \<le> real (length cat) * 0.05"
    by (rule percent_of_revenue_sums_to_100 [of cat, THEN conjunct1, THEN mp, OF cpos])
  have cl: "real (length cat) * 0.05 = 0.15" unfolding cat_def by simp
  have cb: "\<bar>sum_list (map displayed (percent_rows cat)) - 100\<bar> \<le> 0.15"
    using cs unfolding cl by (rule conjunct2)
  have ms: "sum_list (map percent (percent_rows mega)) = 100"
    by (rule percent_of_revenue_sums_to_100 [of mega, THEN conjunct1, THEN mp, OF mpos,
          THEN conjunct1])
  have fz: "list_all (\<lambda>row. percent row = 0 \<and> displayed row = 0) (percent_rows free)"
    by (rule percent_of_revenue_sums_to_100 [of free, THEN conjunct2, THEN conjunct1, THEN mp,
          OF fnon])
  show ?thesis
  proof (intro conjI)
    show "\<exists>table. category_totals thirds_store = Inr table
      \<and> grand_total_revenue table = 30
      \<and> map (\<lambda>row. (label row, percent row, displayed row)) (percent_rows table)
          = [(''Epilat'', 100 / 3, 33.3), (''Pensat'', 100 / 3, 33.3),
             (''Peeling'', 100 / 3, 33.3)]
      \<and> sum_list (map percent (percent_rows table)) = 100
      \<and> \<bar>sum_list (map displayed (percent_rows table)) - 100\<bar> \<le> 0.15"
      using c cg cr cs [THEN conjunct1] cb by (intro exI [of _ cat] conjI)
    show "\<exists>table. mega_category_totals thirds_store = Inr table
      \<and> sum_list (map percent (percent_rows table)) = 100"
      using m ms by (intro exI [of _ mega] conjI)
    show "\<exists>table. category_totals free_store = Inr table
      \<and> grand_total_revenue table = 0
      \<and> list_all (\<lambda>row. percent row = 0 \<and> displayed row = 0) (percent_rows table)"
      using f fg fz by (intro exI [of _ free] conjI)
  qed
qed

end
